theory Spec2Isabelle
  imports Main "HOL-Library.Word"
begin

unbundle bit_operations_syntax

section \<open>The tRNS chunk handler \<open>png_handle_tRNS\<close>\<close>

text \<open>
  The development embeds \<open>png_handle_tRNS\<close> (extracted from \<open>pngrutil.c\<close>, file
  \<open>function_png_handle_tRNS.c\<close>) as a state-passing function. The handler is a
  \<open>void\<close> function working on two structures through pointers; the model takes the
  structures, returns them updated, and returns which of the handler's exits was taken.
\<close>

subsection \<open>Data\<close>

type_synonym png_byte = "8 word"
type_synonym png_uint_16 = "16 word"
type_synonym png_uint_32 = "32 word"

text \<open>
  Modelled from the spec: the structure declarations (\<open>png_color_16\<close>, \<open>png_struct\<close>,
  \<open>png_info\<close>) are in headers that are not among the sources. The records hold the
  fields the handler names (\<open>mode\<close>, \<open>color_type\<close>, \<open>num_palette\<close>, \<open>num_trans\<close>,
  \<open>trans_color\<close> with its \<open>gray\<close>, \<open>red\<close>, \<open>green\<close>, \<open>blue\<close>, and \<open>valid\<close> of the info
  structure) with the widths of the casts in the handler (\<open>png_uint_16\<close> for
  \<open>num_trans\<close>, 16-bit samples), and the fields the spec's InfoRecord needs to hold
  the committed value (\<open>num_trans\<close>, \<open>trans_color\<close>, \<open>trans_alpha\<close>). \<open>trans_alpha\<close>
  of the info record is a pointer: an address of the store below, or NULL (\<open>None\<close>).
\<close>

type_synonym addr = nat

record png_color_16 =
  index :: png_byte
  red :: png_uint_16
  green :: png_uint_16
  blue :: png_uint_16
  gray :: png_uint_16

record png_struct =
  mode :: png_uint_32
  color_type :: png_byte
  num_palette :: png_uint_16
  num_trans :: png_uint_16
  trans_color :: png_color_16

record png_info =
  valid :: png_uint_32
  num_trans :: png_uint_16
  trans_color :: png_color_16
  trans_alpha :: "addr option"

text \<open>
  Modelled from the spec: the macros below are defined in headers that are not among
  the sources. \<open>PNG_MAX_PALETTE_LENGTH\<close> is the spec's \<open>MAX_PALETTE_ENTRIES\<close> (256);
  the mode bits, the colour types and the \<open>valid\<close> bit carry the values of the PNG
  library's public header. The theorems below name the constants and do not depend on
  the values beyond their being distinct bits and distinct colour types.
\<close>

definition PNG_HAVE_IHDR :: png_uint_32 where
  "PNG_HAVE_IHDR = 0x01"

definition PNG_HAVE_PLTE :: png_uint_32 where
  "PNG_HAVE_PLTE = 0x02"

definition PNG_HAVE_IDAT :: png_uint_32 where
  "PNG_HAVE_IDAT = 0x04"

definition PNG_INFO_tRNS :: png_uint_32 where
  "PNG_INFO_tRNS = 0x0010"

definition PNG_COLOR_TYPE_GRAY :: png_byte where
  "PNG_COLOR_TYPE_GRAY = 0"

definition PNG_COLOR_TYPE_RGB :: png_byte where
  "PNG_COLOR_TYPE_RGB = 2"

definition PNG_COLOR_TYPE_PALETTE :: png_byte where
  "PNG_COLOR_TYPE_PALETTE = 3"

definition PNG_COLOR_TYPE_GRAY_ALPHA :: png_byte where
  "PNG_COLOR_TYPE_GRAY_ALPHA = 4"

definition PNG_COLOR_TYPE_RGB_ALPHA :: png_byte where
  "PNG_COLOR_TYPE_RGB_ALPHA = 6"

definition PNG_MAX_PALETTE_LENGTH :: png_uint_32 where
  "PNG_MAX_PALETTE_LENGTH = 256"

subsection \<open>The store\<close>

text \<open>
  The handler passes the address of its local array \<open>readbuf\<close> to \<open>png_set_tRNS\<close>, and
  the info structure holds a pointer to a buffer. Buffers therefore live in an explicit
  store: \<open>cells\<close> maps an address to the bytes of the buffer there, \<open>brk\<close> is the next
  address never handed out. \<open>new_buffer\<close> gives a buffer a fresh address (a local
  array coming into scope, or an allocation), \<open>release\<close> ends its life (the array
  going out of scope), \<open>write_buffer\<close> overwrites the front of a buffer.
\<close>

record memory =
  cells :: "addr \<rightharpoonup> png_byte list"
  brk :: addr

definition new_buffer :: "png_byte list \<Rightarrow> memory \<Rightarrow> addr \<times> memory" where
  "new_buffer bs m = (brk m, m\<lparr>cells := (cells m)(brk m \<mapsto> bs), brk := Suc (brk m)\<rparr>)"

definition release :: "addr \<Rightarrow> memory \<Rightarrow> memory" where
  "release a m = m\<lparr>cells := (cells m)(a := None)\<rparr>"

definition write_buffer :: "addr \<Rightarrow> png_byte list \<Rightarrow> memory \<Rightarrow> memory" where
  "write_buffer a bs m =
     (case cells m a of
        None \<Rightarrow> m
      | Some old \<Rightarrow> m\<lparr>cells := (cells m)(a \<mapsto> bs @ drop (length bs) old)\<rparr>)"

subsection \<open>The chunk's bytes\<close>

text \<open>
  Modelled from the spec: \<open>png_crc_read\<close> and \<open>png_crc_finish\<close> are not among the
  sources; they are the spec's ChunkCursor (\<open>read_exact\<close>, which fails with ShortRead
  when the stream ends early, and \<open>finish_and_verify_checksum\<close>). \<open>unread\<close> holds the
  bytes of the stream from the chunk's data on; the chunk's four checksum bytes and
  their comparison with the running checksum are represented by the verdict
  \<open>crc_mismatch\<close>. \<open>png_crc_read io n\<close> takes \<open>n\<close> bytes, or is \<open>None\<close> when the
  stream holds fewer (the read error, from which control does not come back to the
  handler). \<open>png_crc_finish io skip\<close> discards \<open>skip\<close> bytes and returns the verdict,
  \<open>True\<close> for the non-zero return on a mismatch. The collaborator's policy of turning a
  mismatch or a benign error into a fatal one is not modelled.
\<close>

record chunk_io =
  unread :: "png_byte list"
  crc_mismatch :: bool

definition png_crc_read :: "chunk_io \<Rightarrow> nat \<Rightarrow> (png_byte list \<times> chunk_io) option" where
  "png_crc_read io n =
     (if n \<le> length (unread io)
      then Some (take n (unread io), io\<lparr>unread := drop n (unread io)\<rparr>)
      else None)"

definition png_crc_finish :: "chunk_io \<Rightarrow> nat \<Rightarrow> (bool \<times> chunk_io) option" where
  "png_crc_finish io skip =
     (case png_crc_read io skip of
        None \<Rightarrow> None
      | Some (discarded, io') \<Rightarrow> Some (crc_mismatch io', io'))"

text \<open>
  Modelled from the spec: the macro \<open>png_get_uint_16\<close> is not among the sources; by the
  spec all multi-byte integers are big-endian and unsigned. \<open>buf\<close> is the array the
  pointer argument points into; \<open>buf + 2\<close> of the source is \<open>drop 2 buf\<close>.
\<close>

definition png_get_uint_16 :: "png_byte list \<Rightarrow> png_uint_16" where
  "png_get_uint_16 buf = push_bit 8 (ucast (buf ! 0)) + ucast (buf ! 1)"

subsection \<open>Exits of the handler\<close>

text \<open>
  The handler returns nothing; what a call did is which exit it took.
  \<^item> \<open>Chunk_error msg\<close>: \<open>png_chunk_error\<close> was called (line 10); it does not return,
    the session is aborted (the spec's FatalChunkError).
  \<^item> \<open>Benign_error msg\<close>: \<open>png_chunk_benign_error\<close> was called and the handler
    returned (the spec's BenignChunkError); the messages are the source's:
    \<open>''out of place''\<close> (line 15: OutOfPlaceAfterImageData; line 66:
    OutOfPlaceBeforePalette), \<open>''duplicate''\<close> (Duplicate), \<open>''invalid''\<close>
    (InvalidLength), \<open>''invalid with alpha channel''\<close> (InvalidForAlphaMode).
  \<^item> \<open>Read_error\<close>: the stream ended inside a read (the spec's ShortRead).
  \<^item> \<open>Crc_error\<close>: \<open>png_crc_finish(png_ptr, 0)\<close> returned non-zero and the handler
    returned at line 93 (the spec's ChecksumMismatch).
  \<^item> \<open>Stored\<close>: the handler reached \<open>png_set_tRNS\<close> (the spec's Ok).
\<close>

datatype outcome =
    Chunk_error string
  | Benign_error string
  | Read_error
  | Crc_error
  | Stored

record result =
  r_out :: outcome
  r_png :: png_struct
  r_info :: "png_info option"
  r_io :: chunk_io
  r_mem :: memory

text \<open>
  Modelled from the spec: \<open>png_chunk_error\<close> is not among the sources; it is the spec's
  fatal error, which ends the decode session: control does not come back to the handler
  (so the branch of line 10 needs no \<open>return\<close>). Nothing is read and nothing is written.
\<close>

definition png_chunk_error ::
  "string \<Rightarrow> png_struct \<Rightarrow> png_info option \<Rightarrow> chunk_io \<Rightarrow> memory \<Rightarrow> result" where
  "png_chunk_error msg png_ptr info_ptr io m =
     \<lparr>r_out = Chunk_error msg, r_png = png_ptr, r_info = info_ptr, r_io = io, r_mem = m\<rparr>"

text \<open>
  The three lines every benign rejection of the source consists of:
  \<open>png_crc_finish(png_ptr, length); png_chunk_benign_error(png_ptr, msg); return;\<close>
  The verdict of \<open>png_crc_finish\<close> is not looked at there. Modelled from the spec:
  \<open>png_chunk_benign_error\<close> is not among the sources; it is the spec's benign error,
  which is reported and after which the session goes on, so it returns to the handler.
\<close>

definition finish_benign_error ::
  "string \<Rightarrow> png_struct \<Rightarrow> png_info option \<Rightarrow> png_uint_32 \<Rightarrow> chunk_io \<Rightarrow> memory \<Rightarrow> result" where
  "finish_benign_error msg png_ptr info_ptr len io m =
     (case png_crc_finish io (unat len) of
        None \<Rightarrow>
          \<lparr>r_out = Read_error, r_png = png_ptr, r_info = info_ptr, r_io = io, r_mem = m\<rparr>
      | Some (verdict, io') \<Rightarrow>
          \<lparr>r_out = Benign_error msg, r_png = png_ptr, r_info = info_ptr, r_io = io',
           r_mem = m\<rparr>)"

text \<open>
  Modelled from the spec: \<open>png_set_tRNS\<close> is not among the sources. By the spec the
  commit copies the decoded value into the info record (a copy of its own for the
  palette alphas, in a buffer at a fresh address) and marks the transparency valid; of
  the session state the spec's commit writes only its own record that the chunk was
  taken, so \<open>png_struct\<close> is returned as it was passed. The arguments are those of the
  call: the address of the alpha bytes, their number and the colour. With no info record
  (a NULL \<open>info_ptr\<close>) there is nothing to store into. (What the comment before the call
  says \<open>png_set_tRNS\<close> does to \<open>png_struct\<close> is outside the sources and outside the
  spec's commit, and is not modelled.)
\<close>

definition png_set_tRNS ::
  "png_struct \<Rightarrow> png_info option \<Rightarrow> memory \<Rightarrow> addr \<Rightarrow> png_uint_16 \<Rightarrow> png_color_16
     \<Rightarrow> png_struct \<times> png_info option \<times> memory" where
  "png_set_tRNS png_ptr info_ptr m alpha n color =
     (case info_ptr of
        None \<Rightarrow> (png_ptr, None, m)
      | Some i \<Rightarrow>
          (let src = (case cells m alpha of None \<Rightarrow> [] | Some bs \<Rightarrow> bs);
               (a, m') = new_buffer (take (unat n) src) m
           in (png_ptr,
               Some (i\<lparr>trans_alpha := Some a, num_trans := n, trans_color := color,
                       valid := valid i OR PNG_INFO_tRNS\<rparr>),
               m')))"

text \<open>
  Lines 90 to 101, the common end of the three decoding branches: the checksum is
  verified; on a mismatch \<open>num_trans\<close> is set to 0 and the handler returns; otherwise
  \<open>png_set_tRNS\<close> is called with \<open>readbuf\<close>, \<open>png_ptr->num_trans\<close> and the address of
  \<open>png_ptr->trans_color\<close>.
\<close>

definition finish_set_tRNS ::
  "png_struct \<Rightarrow> png_info option \<Rightarrow> chunk_io \<Rightarrow> memory \<Rightarrow> addr \<Rightarrow> result" where
  "finish_set_tRNS png_ptr info_ptr io m readbuf =
     (case png_crc_finish io 0 of
        None \<Rightarrow>
          \<lparr>r_out = Read_error, r_png = png_ptr, r_info = info_ptr, r_io = io, r_mem = m\<rparr>
      | Some (verdict, io') \<Rightarrow>
          if verdict then
            \<lparr>r_out = Crc_error, r_png = png_ptr\<lparr>png_struct.num_trans := 0\<rparr>,
             r_info = info_ptr, r_io = io', r_mem = m\<rparr>
          else
            (let (png_ptr', info_ptr', m') =
                   png_set_tRNS png_ptr info_ptr m readbuf (png_struct.num_trans png_ptr)
                     (png_struct.trans_color png_ptr)
             in \<lparr>r_out = Stored, r_png = png_ptr', r_info = info_ptr', r_io = io',
                  r_mem = m'\<rparr>))"

text \<open>A read that found the stream too short: control does not come back.\<close>

definition read_error ::
  "png_struct \<Rightarrow> png_info option \<Rightarrow> chunk_io \<Rightarrow> memory \<Rightarrow> result" where
  "read_error png_ptr info_ptr io m =
     \<lparr>r_out = Read_error, r_png = png_ptr, r_info = info_ptr, r_io = io, r_mem = m\<rparr>"

subsection \<open>The handler\<close>

text \<open>
  The body of \<open>png_handle_tRNS\<close>, lines 9 to 101, branch for branch. \<open>len\<close> is the
  parameter \<open>length\<close>; \<open>readbuf\<close> is the address of the local array of that name. The
  arrays \<open>buf\<close> of the gray and RGB branches never leave their branch and are values.
\<close>

definition png_handle_tRNS_body ::
  "png_struct \<Rightarrow> png_info option \<Rightarrow> png_uint_32 \<Rightarrow> chunk_io \<Rightarrow> memory \<Rightarrow> addr \<Rightarrow> result" where
  "png_handle_tRNS_body png_ptr info_ptr len io m readbuf =
     (if mode png_ptr AND PNG_HAVE_IHDR = 0 then
        png_chunk_error ''missing IHDR'' png_ptr info_ptr io m
      else if mode png_ptr AND PNG_HAVE_IDAT \<noteq> 0 then
        finish_benign_error ''out of place'' png_ptr info_ptr len io m
      else if (case info_ptr of None \<Rightarrow> False | Some i \<Rightarrow> valid i AND PNG_INFO_tRNS \<noteq> 0) then
        finish_benign_error ''duplicate'' png_ptr info_ptr len io m
      else if color_type png_ptr = PNG_COLOR_TYPE_GRAY then
        (if len \<noteq> 2 then
           finish_benign_error ''invalid'' png_ptr info_ptr len io m
         else
           (case png_crc_read io 2 of
              None \<Rightarrow> read_error png_ptr info_ptr io m
            | Some (buf, io') \<Rightarrow>
                finish_set_tRNS
                  (png_ptr\<lparr>png_struct.num_trans := 1,
                     png_struct.trans_color :=
                       (png_struct.trans_color png_ptr)\<lparr>gray := png_get_uint_16 buf\<rparr>\<rparr>)
                  info_ptr io' m readbuf))
      else if color_type png_ptr = PNG_COLOR_TYPE_RGB then
        (if len \<noteq> 6 then
           finish_benign_error ''invalid'' png_ptr info_ptr len io m
         else
           (case png_crc_read io (unat len) of
              None \<Rightarrow> read_error png_ptr info_ptr io m
            | Some (buf, io') \<Rightarrow>
                finish_set_tRNS
                  (png_ptr\<lparr>png_struct.num_trans := 1,
                     png_struct.trans_color :=
                       (png_struct.trans_color png_ptr)
                         \<lparr>red := png_get_uint_16 buf,
                          green := png_get_uint_16 (drop 2 buf),
                          blue := png_get_uint_16 (drop 4 buf)\<rparr>\<rparr>)
                  info_ptr io' m readbuf))
      else if color_type png_ptr = PNG_COLOR_TYPE_PALETTE then
        (if mode png_ptr AND PNG_HAVE_PLTE = 0 then
           finish_benign_error ''out of place'' png_ptr info_ptr len io m
         else if len > ucast (num_palette png_ptr) \<or> len > PNG_MAX_PALETTE_LENGTH \<or> len = 0 then
           finish_benign_error ''invalid'' png_ptr info_ptr len io m
         else
           (case png_crc_read io (unat len) of
              None \<Rightarrow> read_error png_ptr info_ptr io m
            | Some (bytes, io') \<Rightarrow>
                finish_set_tRNS (png_ptr\<lparr>png_struct.num_trans := ucast len\<rparr>)
                  info_ptr io' (write_buffer readbuf bytes m) readbuf))
      else
        finish_benign_error ''invalid with alpha channel'' png_ptr info_ptr len io m)"

text \<open>
  The whole call: \<open>readbuf\<close> comes into scope with the indeterminate contents
  \<open>uninit\<close> at a fresh address, the body runs, and \<open>readbuf\<close> goes out of scope on
  whichever exit was taken.
\<close>

definition png_handle_tRNS ::
  "png_struct \<Rightarrow> png_info option \<Rightarrow> png_uint_32 \<Rightarrow> chunk_io \<Rightarrow> memory \<Rightarrow> png_byte list
     \<Rightarrow> result" where
  "png_handle_tRNS png_ptr info_ptr len io m uninit =
     (let (readbuf, m0) = new_buffer uninit m;
          r = png_handle_tRNS_body png_ptr info_ptr len io m0 readbuf
      in r\<lparr>r_mem := release readbuf (r_mem r)\<rparr>)"

subsection \<open>Path conditions\<close>

text \<open>
  \<open>passes\<close>: none of the three tests of lines 9 to 24 fires (the header chunk has been
  seen, no image data yet, and not a duplicate, the last with the source's own test, which
  a NULL \<open>info_ptr\<close> makes false). \<open>decodes\<close>: the call also gets through the test of
  its colour type's branch (lines 30, 46, 62 and 70) and the stream holds the declared
  bytes, so the payload is read and the handler reaches line 90.
\<close>

definition passes :: "png_struct \<Rightarrow> png_info option \<Rightarrow> bool" where
  "passes png_ptr info_ptr \<longleftrightarrow>
     mode png_ptr AND PNG_HAVE_IHDR \<noteq> 0 \<and> mode png_ptr AND PNG_HAVE_IDAT = 0 \<and>
     \<not> (case info_ptr of None \<Rightarrow> False | Some i \<Rightarrow> valid i AND PNG_INFO_tRNS \<noteq> 0)"

definition decodes :: "png_struct \<Rightarrow> png_info option \<Rightarrow> png_uint_32 \<Rightarrow> chunk_io \<Rightarrow> bool" where
  "decodes png_ptr info_ptr len io \<longleftrightarrow>
     passes png_ptr info_ptr \<and> unat len \<le> length (unread io) \<and>
     (color_type png_ptr = PNG_COLOR_TYPE_GRAY \<and> len = 2 \<or>
      color_type png_ptr = PNG_COLOR_TYPE_RGB \<and> len = 6 \<or>
      color_type png_ptr = PNG_COLOR_TYPE_PALETTE \<and> mode png_ptr AND PNG_HAVE_PLTE \<noteq> 0 \<and>
        \<not> (len > ucast (num_palette png_ptr) \<or> len > PNG_MAX_PALETTE_LENGTH \<or> len = 0))"

subsection \<open>Concrete sessions\<close>

text \<open>
  Inputs at which the theorems are instantiated: an empty colour and info record, an
  empty store, a stream holding the given bytes with the given checksum verdict, and a
  session with the given mode bits and colour type, a palette size of four and no
  transparency yet.
\<close>

definition color0 :: png_color_16 where
  "color0 = \<lparr>index = 0, red = 0, green = 0, blue = 0, gray = 0\<rparr>"

definition info0 :: png_info where
  "info0 = \<lparr>valid = 0, num_trans = 0, trans_color = color0, trans_alpha = None\<rparr>"

definition mem0 :: memory where
  "mem0 = \<lparr>cells = Map.empty, brk = 0\<rparr>"

definition stream :: "png_byte list \<Rightarrow> bool \<Rightarrow> chunk_io" where
  "stream bs bad = \<lparr>unread = bs, crc_mismatch = bad\<rparr>"

definition session :: "png_uint_32 \<Rightarrow> png_byte \<Rightarrow> png_struct" where
  "session md ct =
     \<lparr>mode = md, color_type = ct, num_palette = 4, num_trans = 0, trans_color = color0\<rparr>"

section \<open>Properties\<close>

subsection \<open>Words\<close>

lemma unat_byte_less: "unat (b :: png_byte) < 256"
  using unsigned_less [of b, where 'a = nat] by simp

lemma unat_ucast_byte: "unat (ucast (b :: png_byte) :: png_uint_16) = unat b"
  using unat_byte_less [of b] by (simp add: unsigned_ucast_eq take_bit_nat_eq_self)

lemma unat_ucast_palette: "unat (ucast (n :: png_uint_16) :: png_uint_32) = unat n"
proof -
  have "unat n < 2 ^ 16"
    using unsigned_less [of n, where 'a = nat] by simp
  then have "unat n < 2 ^ 32"
    by simp
  then show ?thesis
    by (simp add: unsigned_ucast_eq take_bit_nat_eq_self)
qed

lemma unat_get_uint_16:
  "unat (png_get_uint_16 (hi # lo # rest)) = unat hi * 256 + unat lo"
proof -
  have h: "unat hi < 256" and l: "unat lo < 256"
    by (rule unat_byte_less)+
  have "unat (png_get_uint_16 (hi # lo # rest)) = (unat hi * 256 + unat lo) mod 65536"
    by (simp add: png_get_uint_16_def push_bit_eq_mult unat_word_ariths unat_ucast_byte mod_simps)
  also have "\<dots> = unat hi * 256 + unat lo"
    using h l by simp
  finally show ?thesis .
qed

lemma unat_ucast_length:
  "unat (len :: png_uint_32) \<le> 256 \<Longrightarrow> unat (ucast len :: png_uint_16) = unat len"
  by (simp add: unsigned_ucast_eq take_bit_nat_eq_self)

lemma palette_length_test:
  "(\<not> (len > ucast (np :: png_uint_16) \<or> len > PNG_MAX_PALETTE_LENGTH \<or> len = 0)) =
     (1 \<le> unat (len :: png_uint_32) \<and> unat len \<le> min (unat np) 256)"
  using unat_gt_0 [of len]
  by (auto simp: PNG_MAX_PALETTE_LENGTH_def word_less_nat_alt unat_ucast_palette not_less)

lemma tRNS_bit_set: "((v :: png_uint_32) OR PNG_INFO_tRNS) AND PNG_INFO_tRNS \<noteq> 0"
proof -
  have "(v OR PNG_INFO_tRNS) AND PNG_INFO_tRNS = PNG_INFO_tRNS"
    by (rule word_ao_absorbs)
  then show ?thesis by (simp add: PNG_INFO_tRNS_def)
qed

subsection \<open>The exits, field by field\<close>

lemma handler_proj:
  "r_out (png_handle_tRNS p i len io m u) =
     r_out (png_handle_tRNS_body p i len io (snd (new_buffer u m)) (brk m))"
  "r_png (png_handle_tRNS p i len io m u) =
     r_png (png_handle_tRNS_body p i len io (snd (new_buffer u m)) (brk m))"
  "r_info (png_handle_tRNS p i len io m u) =
     r_info (png_handle_tRNS_body p i len io (snd (new_buffer u m)) (brk m))"
  "r_io (png_handle_tRNS p i len io m u) =
     r_io (png_handle_tRNS_body p i len io (snd (new_buffer u m)) (brk m))"
  "r_mem (png_handle_tRNS p i len io m u) =
     release (brk m) (r_mem (png_handle_tRNS_body p i len io (snd (new_buffer u m)) (brk m)))"
  by (simp_all add: png_handle_tRNS_def new_buffer_def Let_def)

lemma benign_proj:
  "r_out (finish_benign_error msg p i len io m) =
     (if unat len \<le> length (unread io) then Benign_error msg else Read_error)"
  "r_png (finish_benign_error msg p i len io m) = p"
  "r_info (finish_benign_error msg p i len io m) = i"
  "r_io (finish_benign_error msg p i len io m) =
     (if unat len \<le> length (unread io) then io\<lparr>unread := drop (unat len) (unread io)\<rparr> else io)"
  "r_mem (finish_benign_error msg p i len io m) = m"
  by (simp_all add: finish_benign_error_def png_crc_finish_def png_crc_read_def)

lemma set_proj:
  "r_out (finish_set_tRNS p i io m rb) = (if crc_mismatch io then Crc_error else Stored)"
  "r_png (finish_set_tRNS p i io m rb) =
     (if crc_mismatch io then p\<lparr>png_struct.num_trans := 0\<rparr> else p)"
  "r_info (finish_set_tRNS p i io m rb) =
     (if crc_mismatch io then i
      else map_option
        (\<lambda>x. x\<lparr>trans_alpha := Some (brk m), num_trans := png_struct.num_trans p,
               trans_color := png_struct.trans_color p, valid := valid x OR PNG_INFO_tRNS\<rparr>) i)"
  "r_io (finish_set_tRNS p i io m rb) = io"
  by (simp_all add: finish_set_tRNS_def png_crc_finish_def png_crc_read_def png_set_tRNS_def
        new_buffer_def Let_def split: option.splits)

lemma error_proj:
  "r_out (png_chunk_error msg p i io m) = Chunk_error msg"
  "r_png (png_chunk_error msg p i io m) = p"
  "r_info (png_chunk_error msg p i io m) = i"
  "r_io (png_chunk_error msg p i io m) = io"
  "r_out (read_error p i io m) = Read_error"
  "r_png (read_error p i io m) = p"
  "r_info (read_error p i io m) = i"
  "r_io (read_error p i io m) = io"
  "r_mem (png_chunk_error msg p i io m) = m"
  "r_mem (read_error p i io m) = m"
  by (simp_all add: png_chunk_error_def read_error_def)

lemmas proj = handler_proj benign_proj set_proj error_proj

subsection \<open>The branches of the handler\<close>

lemma body_no_header:
  "mode p AND PNG_HAVE_IHDR = 0 \<Longrightarrow>
     png_handle_tRNS_body p i len io m rb = png_chunk_error ''missing IHDR'' p i io m"
  by (simp add: png_handle_tRNS_body_def)

lemma body_image_data:
  "mode p AND PNG_HAVE_IHDR \<noteq> 0 \<Longrightarrow> mode p AND PNG_HAVE_IDAT \<noteq> 0 \<Longrightarrow>
     png_handle_tRNS_body p i len io m rb = finish_benign_error ''out of place'' p i len io m"
  by (simp add: png_handle_tRNS_body_def)

lemma body_duplicate:
  "mode p AND PNG_HAVE_IHDR \<noteq> 0 \<Longrightarrow> mode p AND PNG_HAVE_IDAT = 0 \<Longrightarrow>
   i = Some x \<Longrightarrow> valid x AND PNG_INFO_tRNS \<noteq> 0 \<Longrightarrow>
     png_handle_tRNS_body p i len io m rb = finish_benign_error ''duplicate'' p i len io m"
  by (simp add: png_handle_tRNS_body_def)

lemma body_gray:
  "passes p i \<Longrightarrow> color_type p = PNG_COLOR_TYPE_GRAY \<Longrightarrow>
     png_handle_tRNS_body p i len io m rb =
       (if len \<noteq> 2 then finish_benign_error ''invalid'' p i len io m
        else case png_crc_read io 2 of
               None \<Rightarrow> read_error p i io m
             | Some (buf, io') \<Rightarrow>
                 finish_set_tRNS
                   (p\<lparr>png_struct.num_trans := 1,
                      png_struct.trans_color :=
                        (png_struct.trans_color p)\<lparr>gray := png_get_uint_16 buf\<rparr>\<rparr>)
                   i io' m rb)"
  by (simp add: passes_def png_handle_tRNS_body_def)

lemma body_rgb:
  "passes p i \<Longrightarrow> color_type p = PNG_COLOR_TYPE_RGB \<Longrightarrow>
     png_handle_tRNS_body p i len io m rb =
       (if len \<noteq> 6 then finish_benign_error ''invalid'' p i len io m
        else case png_crc_read io (unat len) of
               None \<Rightarrow> read_error p i io m
             | Some (buf, io') \<Rightarrow>
                 finish_set_tRNS
                   (p\<lparr>png_struct.num_trans := 1,
                      png_struct.trans_color :=
                        (png_struct.trans_color p)
                          \<lparr>red := png_get_uint_16 buf,
                           green := png_get_uint_16 (drop 2 buf),
                           blue := png_get_uint_16 (drop 4 buf)\<rparr>\<rparr>)
                   i io' m rb)"
  by (simp add: passes_def png_handle_tRNS_body_def PNG_COLOR_TYPE_RGB_def
       PNG_COLOR_TYPE_GRAY_def)

lemma body_palette:
  "passes p i \<Longrightarrow> color_type p = PNG_COLOR_TYPE_PALETTE \<Longrightarrow>
     png_handle_tRNS_body p i len io m rb =
       (if mode p AND PNG_HAVE_PLTE = 0 then
          finish_benign_error ''out of place'' p i len io m
        else if len > ucast (num_palette p) \<or> len > PNG_MAX_PALETTE_LENGTH \<or> len = 0 then
          finish_benign_error ''invalid'' p i len io m
        else case png_crc_read io (unat len) of
               None \<Rightarrow> read_error p i io m
             | Some (bytes, io') \<Rightarrow>
                 finish_set_tRNS (p\<lparr>png_struct.num_trans := ucast len\<rparr>)
                   i io' (write_buffer rb bytes m) rb)"
  by (simp add: passes_def png_handle_tRNS_body_def PNG_COLOR_TYPE_RGB_def
       PNG_COLOR_TYPE_GRAY_def PNG_COLOR_TYPE_PALETTE_def)

lemma body_other:
  "passes p i \<Longrightarrow> color_type p \<noteq> PNG_COLOR_TYPE_GRAY \<Longrightarrow>
   color_type p \<noteq> PNG_COLOR_TYPE_RGB \<Longrightarrow> color_type p \<noteq> PNG_COLOR_TYPE_PALETTE \<Longrightarrow>
     png_handle_tRNS_body p i len io m rb =
       finish_benign_error ''invalid with alpha channel'' p i len io m"
  by (simp add: passes_def png_handle_tRNS_body_def)

lemma color_type_cases:
  obtains (gray) "color_type p = PNG_COLOR_TYPE_GRAY"
    | (rgb) "color_type p = PNG_COLOR_TYPE_RGB"
    | (palette) "color_type p = PNG_COLOR_TYPE_PALETTE"
    | (other) "color_type p \<noteq> PNG_COLOR_TYPE_GRAY" "color_type p \<noteq> PNG_COLOR_TYPE_RGB"
        "color_type p \<noteq> PNG_COLOR_TYPE_PALETTE"
  by blast

lemma passes_out:
  assumes "passes p i"
  shows "r_out (png_handle_tRNS_body p i len io m rb) \<noteq> Chunk_error msg \<and>
    r_out (png_handle_tRNS_body p i len io m rb) \<noteq> Benign_error ''duplicate''"
proof (cases p rule: color_type_cases)
  case gray
  with assms show ?thesis
    by (simp add: body_gray proj png_crc_read_def)
next
  case rgb
  with assms show ?thesis
    by (simp add: body_rgb proj png_crc_read_def)
next
  case palette
  with assms show ?thesis
    by (simp add: body_palette proj png_crc_read_def)
next
  case other
  with assms show ?thesis
    by (simp add: body_other proj)
qed

lemma body_cases [case_names header image_data duplicate gray rgb palette other]:
  fixes p :: png_struct and i :: "png_info option"
  obtains "mode p AND PNG_HAVE_IHDR = 0"
    | "mode p AND PNG_HAVE_IHDR \<noteq> 0" "mode p AND PNG_HAVE_IDAT \<noteq> 0"
    | x where "mode p AND PNG_HAVE_IHDR \<noteq> 0" "mode p AND PNG_HAVE_IDAT = 0"
        "i = Some x" "valid x AND PNG_INFO_tRNS \<noteq> 0"
    | "passes p i" "color_type p = PNG_COLOR_TYPE_GRAY"
    | "passes p i" "color_type p = PNG_COLOR_TYPE_RGB"
    | "passes p i" "color_type p = PNG_COLOR_TYPE_PALETTE"
    | "passes p i" "color_type p \<noteq> PNG_COLOR_TYPE_GRAY" "color_type p \<noteq> PNG_COLOR_TYPE_RGB"
        "color_type p \<noteq> PNG_COLOR_TYPE_PALETTE"
proof -
  consider "mode p AND PNG_HAVE_IHDR = 0"
    | "mode p AND PNG_HAVE_IHDR \<noteq> 0" "mode p AND PNG_HAVE_IDAT \<noteq> 0"
    | x where "mode p AND PNG_HAVE_IHDR \<noteq> 0" "mode p AND PNG_HAVE_IDAT = 0"
        "i = Some x" "valid x AND PNG_INFO_tRNS \<noteq> 0"
    | "passes p i"
    by (cases i) (auto simp: passes_def)
  then show thesis
  proof cases
    case 4
    then show thesis
      using that(4-7) by (cases p rule: color_type_cases) blast+
  qed (use that in blast)+
qed

lemma set_mem:
  "r_mem (finish_set_tRNS p i io m rb) =
     (if crc_mismatch io then m
      else case i of
             None \<Rightarrow> m
           | Some x \<Rightarrow>
               snd (new_buffer
                 (take (unat (png_struct.num_trans p))
                    (case cells m rb of None \<Rightarrow> [] | Some bs \<Rightarrow> bs)) m))"
  by (simp add: finish_set_tRNS_def png_crc_finish_def png_crc_read_def png_set_tRNS_def
        new_buffer_def Let_def split: option.splits)

lemma tRNS_bit_nonzero: "PNG_INFO_tRNS \<noteq> 0"
  by (simp add: PNG_INFO_tRNS_def)

lemma set_fields:
  "png_struct.num_trans (r_png (finish_set_tRNS p i io m rb)) =
     (if crc_mismatch io then 0 else png_struct.num_trans p)"
  "png_struct.trans_color (r_png (finish_set_tRNS p i io m rb)) = png_struct.trans_color p"
  by (simp_all add: set_proj)

lemma palette_length_nonzero:
  assumes "1 \<le> unat (len :: png_uint_32)" "unat len \<le> min (unat (np :: png_uint_16)) 256"
  shows "(ucast len :: png_uint_16) \<noteq> 0"
proof -
  from assms have "unat (ucast len :: png_uint_16) = unat len"
    by (simp add: unat_ucast_length)
  with assms(1) show ?thesis
    by (metis not_one_le_zero unat_0_iff)
qed

lemma passes_null_info:
  "passes p None \<longleftrightarrow> mode p AND PNG_HAVE_IHDR \<noteq> 0 \<and> mode p AND PNG_HAVE_IDAT = 0"
  by (simp add: passes_def)

lemma passes_unmarked_info:
  "valid x AND PNG_INFO_tRNS = 0 \<Longrightarrow> passes p (Some x) = passes p None"
  by (simp add: passes_def)

lemma null_info_like_unmarked:
  assumes "valid x AND PNG_INFO_tRNS = 0"
  shows "r_out (png_handle_tRNS_body p None len io m rb) =
           r_out (png_handle_tRNS_body p (Some x) len io m rb)
         \<and> r_io (png_handle_tRNS_body p None len io m rb) =
           r_io (png_handle_tRNS_body p (Some x) len io m rb)
         \<and> png_struct.num_trans (r_png (png_handle_tRNS_body p None len io m rb)) =
           png_struct.num_trans (r_png (png_handle_tRNS_body p (Some x) len io m rb))
         \<and> png_struct.trans_color (r_png (png_handle_tRNS_body p None len io m rb)) =
           png_struct.trans_color (r_png (png_handle_tRNS_body p (Some x) len io m rb))"
proof (cases rule: body_cases [where p = p and i = None])
  case header
  then show ?thesis
    by (simp add: body_no_header error_proj)
next
  case image_data
  then show ?thesis
    by (simp add: body_image_data benign_proj)
next
  case (duplicate y)
  then show ?thesis
    by simp
next
  case gray
  moreover from gray(1) assms have "passes p (Some x)"
    by (simp add: passes_unmarked_info)
  ultimately show ?thesis
    by (simp add: body_gray benign_proj error_proj set_proj set_fields png_crc_read_def)
next
  case rgb
  moreover from rgb(1) assms have "passes p (Some x)"
    by (simp add: passes_unmarked_info)
  ultimately show ?thesis
    by (simp add: body_rgb benign_proj error_proj set_proj set_fields png_crc_read_def)
next
  case palette
  moreover from palette(1) assms have "passes p (Some x)"
    by (simp add: passes_unmarked_info)
  ultimately show ?thesis
    by (simp add: body_palette benign_proj error_proj set_proj set_fields png_crc_read_def)
next
  case other
  moreover from other(1) assms have "passes p (Some x)"
    by (simp add: passes_unmarked_info)
  ultimately show ?thesis
    by (simp add: body_other benign_proj)
qed

lemma readbuf_released:
  "cells (release (brk m) (snd (new_buffer u m))) = (cells m)(brk m := None)"
  "brk (release (brk m) (snd (new_buffer u m))) = Suc (brk m)"
  "cells (release (brk m) (write_buffer (brk m) bs (snd (new_buffer u m)))) =
     (cells m)(brk m := None)"
  "brk (release (brk m) (write_buffer (brk m) bs (snd (new_buffer u m)))) = Suc (brk m)"
  by (simp_all add: release_def new_buffer_def write_buffer_def)


subsection \<open>Evaluation at concrete inputs\<close>

lemmas run =
  png_handle_tRNS_def png_handle_tRNS_body_def png_chunk_error_def finish_benign_error_def
  finish_set_tRNS_def read_error_def png_set_tRNS_def png_crc_finish_def png_crc_read_def
  new_buffer_def release_def write_buffer_def png_get_uint_16_def Let_def
  session_def stream_def info0_def color0_def mem0_def
  PNG_HAVE_IHDR_def PNG_HAVE_PLTE_def PNG_HAVE_IDAT_def PNG_INFO_tRNS_def
  PNG_COLOR_TYPE_GRAY_def PNG_COLOR_TYPE_RGB_def PNG_COLOR_TYPE_PALETTE_def
  PNG_COLOR_TYPE_GRAY_ALPHA_def PNG_COLOR_TYPE_RGB_ALPHA_def PNG_MAX_PALETTE_LENGTH_def

section \<open>The claims\<close>

subsection \<open>C1: what a rejected chunk leaves behind\<close>

text \<open>
  C1, as amended. A call stores into the info record only on the exit \<open>Stored\<close>, which
  is taken only when the payload was decoded and the checksum verified. On every other
  exit the info record is exactly as on entry, and so is every buffer of the store (the
  local \<open>readbuf\<close>, at the fresh address \<open>brk m\<close>, has come and gone). On every exit
  other than \<open>Stored\<close> and the checksum mismatch (the chunk error, the benign errors,
  the read error) \<open>png_struct\<close> is exactly as on entry too. On a checksum mismatch
  after a successful decode \<open>png_struct\<close> is not restored: \<open>num_trans\<close> is 0 (line 92)
  and \<open>trans_color\<close> is as the decoding wrote it, that is, with the big-endian gray
  sample of the payload in \<open>gray\<close> for a gray image (line 39), with the three
  big-endian samples in \<open>red\<close>, \<open>green\<close>, \<open>blue\<close> for an RGB image (lines 55 to 57),
  and as on entry for a palette image; the other fields are as on entry.
\<close>

theorem commit_or_no_info_change:
  "let r = png_handle_tRNS png_ptr info_ptr len io m u;
       payload = take (unat len) (unread io);
       color = png_struct.trans_color png_ptr
   in (r_out r = Stored \<longrightarrow> decodes png_ptr info_ptr len io \<and> \<not> crc_mismatch io)
    \<and> (r_out r \<noteq> Stored \<longrightarrow>
          r_info r = info_ptr \<and> cells (r_mem r) = (cells m)(brk m := None) \<and>
          brk (r_mem r) = Suc (brk m))
    \<and> (r_out r \<noteq> Stored \<and> r_out r \<noteq> Crc_error \<longrightarrow> r_png r = png_ptr)
    \<and> (r_out r = Crc_error \<longrightarrow>
          png_struct.num_trans (r_png r) = 0 \<and>
          r_png r = png_ptr
            \<lparr>png_struct.num_trans := 0,
             png_struct.trans_color :=
               (if color_type png_ptr = PNG_COLOR_TYPE_GRAY then
                  color\<lparr>gray := png_get_uint_16 payload\<rparr>
                else if color_type png_ptr = PNG_COLOR_TYPE_RGB then
                  color\<lparr>red := png_get_uint_16 payload,
                         green := png_get_uint_16 (drop 2 payload),
                         blue := png_get_uint_16 (drop 4 payload)\<rparr>
                else color)\<rparr>)"
proof (cases rule: body_cases [where p = png_ptr and i = info_ptr])
  case header
  then show ?thesis
    by (simp add: Let_def handler_proj body_no_header error_proj readbuf_released)
next
  case image_data
  then show ?thesis
    by (simp add: Let_def handler_proj body_image_data benign_proj readbuf_released)
next
  case (duplicate x)
  then show ?thesis
    by (simp add: Let_def handler_proj body_duplicate benign_proj readbuf_released)
next
  case gray
  then show ?thesis
    by (simp add: Let_def body_gray proj set_mem png_crc_read_def decodes_def readbuf_released)
next
  case rgb
  then show ?thesis
    by (simp add: Let_def body_rgb proj set_mem png_crc_read_def decodes_def readbuf_released
        PNG_COLOR_TYPE_GRAY_def PNG_COLOR_TYPE_RGB_def)
next
  case palette
  then show ?thesis
    by (simp add: Let_def body_palette proj set_mem png_crc_read_def decodes_def
        readbuf_released PNG_COLOR_TYPE_GRAY_def PNG_COLOR_TYPE_RGB_def
        PNG_COLOR_TYPE_PALETTE_def)
next
  case other
  then show ?thesis
    by (simp add: Let_def handler_proj body_other benign_proj readbuf_released)
qed

theorem commit_or_no_info_change_witness:
  "r_info (png_handle_tRNS (session PNG_HAVE_IHDR PNG_COLOR_TYPE_GRAY) (Some info0) 2
      (stream [0, 42] True) mem0 []) = Some info0
   \<and> cells (r_mem (png_handle_tRNS (session PNG_HAVE_IHDR PNG_COLOR_TYPE_GRAY) (Some info0) 2
       (stream [0, 42] True) mem0 [])) = (cells mem0)(brk mem0 := None)
   \<and> png_struct.num_trans (r_png (png_handle_tRNS (session PNG_HAVE_IHDR PNG_COLOR_TYPE_GRAY)
       (Some info0) 2 (stream [0, 42] True) mem0 [])) = 0
   \<and> png_struct.trans_color (r_png (png_handle_tRNS
       (session PNG_HAVE_IHDR PNG_COLOR_TYPE_GRAY) (Some info0) 2
       (stream [0, 42] True) mem0 [])) = color0\<lparr>gray := 42\<rparr>
   \<and> r_png (png_handle_tRNS (session PNG_HAVE_IHDR PNG_COLOR_TYPE_GRAY) (Some info0) 3
       (stream [0, 42, 7] True) mem0 []) = session PNG_HAVE_IHDR PNG_COLOR_TYPE_GRAY
   \<and> decodes (session PNG_HAVE_IHDR PNG_COLOR_TYPE_GRAY) (Some info0) 2 (stream [0, 42] False)"
proof -
  let ?p = "session PNG_HAVE_IHDR PNG_COLOR_TYPE_GRAY"
  let ?bad = "png_handle_tRNS ?p (Some info0) 2 (stream [0, 42] True) mem0 []"
  let ?long = "png_handle_tRNS ?p (Some info0) 3 (stream [0, 42, 7] True) mem0 []"
  let ?good = "png_handle_tRNS ?p (Some info0) 2 (stream [0, 42] False) mem0 []"
  note bad = commit_or_no_info_change [of ?p "Some info0" 2 "stream [0, 42] True" mem0 "[]",
      unfolded Let_def]
  note long = commit_or_no_info_change [of ?p "Some info0" 3 "stream [0, 42, 7] True" mem0 "[]",
      unfolded Let_def]
  note good = commit_or_no_info_change [of ?p "Some info0" 2 "stream [0, 42] False" mem0 "[]",
      unfolded Let_def]
  have out_bad: "r_out ?bad = Crc_error" and out_long: "r_out ?long = Benign_error ''invalid''"
    and out_good: "r_out ?good = Stored"
    by (simp_all add: run)
  have not_stored: "r_out ?bad \<noteq> Stored"
    by (simp add: out_bad)
  note kept = bad [THEN conjunct2, THEN conjunct1, THEN mp, OF not_stored]
  note mismatch = bad [THEN conjunct2, THEN conjunct2, THEN conjunct2, THEN mp, OF out_bad]
  have "r_info ?bad = Some info0"
    using kept by (rule conjunct1)
  moreover have "cells (r_mem ?bad) = (cells mem0)(brk mem0 := None)"
    using kept [THEN conjunct2] by (rule conjunct1)
  moreover have "png_struct.num_trans (r_png ?bad) = 0"
    using mismatch by (rule conjunct1)
  moreover have "png_struct.trans_color (r_png ?bad) = color0\<lparr>gray := 42\<rparr>"
    using mismatch [THEN conjunct2, THEN arg_cong, where f = png_struct.trans_color]
    by (simp add: session_def stream_def color0_def png_get_uint_16_def)
  moreover have "r_png ?long = ?p"
    by (rule long [THEN conjunct2, THEN conjunct2, THEN conjunct1, THEN mp]) (simp add: out_long)
  moreover have "decodes ?p (Some info0) 2 (stream [0, 42] False)"
    using good [THEN conjunct1, THEN mp, OF out_good] by (rule conjunct1)
  ultimately show ?thesis
    by simp
qed

text \<open>
  C1 as stated fails: a gray chunk \<open>[0, 42]\<close> whose checksum does not match is
  rejected, and \<open>trans_color.gray\<close>, 0 on entry, is 42 on return.
\<close>

theorem rejection_keeps_state_counterexample:
  "r_out (png_handle_tRNS (session PNG_HAVE_IHDR PNG_COLOR_TYPE_GRAY) (Some info0) 2
      (stream [0, 42] True) mem0 []) = Crc_error
   \<and> gray (png_struct.trans_color (session PNG_HAVE_IHDR PNG_COLOR_TYPE_GRAY)) = 0
   \<and> gray (png_struct.trans_color (r_png (png_handle_tRNS
       (session PNG_HAVE_IHDR PNG_COLOR_TYPE_GRAY) (Some info0) 2
       (stream [0, 42] True) mem0 []))) = 42"
  by (simp add: run)

subsection \<open>C2: the commit is gated on the checksum\<close>

text \<open>
  C2. After a successful payload decode (\<open>decodes\<close>: the handler has read the payload and
  stands at line 90) the commit depends on the checksum alone. On a mismatch the exit
  is \<open>Crc_error\<close> (ChecksumMismatch, not fatal) and the info record is as on entry, so
  its \<open>valid\<close> bit is not set. With a valid checksum the exit is \<open>Stored\<close> (Ok), the
  decoded value is in the info record (the big-endian gray sample; the red, green and
  blue samples in that order; for a palette image \<open>len\<close> alpha bytes in a buffer of the
  info record's, equal to the payload), \<open>PNG_INFO_tRNS\<close> is set in \<open>valid\<close>, and the
  session records the chunk: \<open>png_ptr->num_trans\<close> is not 0 (the source has no separate
  \<open>trns_seen\<close> flag; a non-zero \<open>num_trans\<close> is its record that a transparency chunk
  was taken).
\<close>

theorem checksum_gated_commit:
  assumes "decodes png_ptr info_ptr len io"
  shows "let r = png_handle_tRNS png_ptr info_ptr len io m u;
             payload = take (unat len) (unread io)
         in (crc_mismatch io \<longrightarrow> r_out r = Crc_error \<and> r_info r = info_ptr)
          \<and> (\<not> crc_mismatch io \<longrightarrow>
                r_out r = Stored \<and> png_struct.num_trans (r_png r) \<noteq> 0 \<and>
                (\<forall>i. info_ptr = Some i \<longrightarrow>
                   (\<exists>i'. r_info r = Some i' \<and> valid i' = valid i OR PNG_INFO_tRNS \<and>
                      valid i' AND PNG_INFO_tRNS \<noteq> 0 \<and>
                      (color_type png_ptr = PNG_COLOR_TYPE_GRAY \<longrightarrow>
                         gray (trans_color i') = png_get_uint_16 payload) \<and>
                      (color_type png_ptr = PNG_COLOR_TYPE_RGB \<longrightarrow>
                         red (trans_color i') = png_get_uint_16 payload \<and>
                         green (trans_color i') = png_get_uint_16 (drop 2 payload) \<and>
                         blue (trans_color i') = png_get_uint_16 (drop 4 payload)) \<and>
                      (color_type png_ptr = PNG_COLOR_TYPE_PALETTE \<longrightarrow>
                         unat (num_trans i') = unat len \<and>
                         (\<exists>a. trans_alpha i' = Some a \<and> cells (r_mem r) a = Some payload)))))"
proof -
  from assms have pass: "passes png_ptr info_ptr" and avail: "unat len \<le> length (unread io)"
    by (simp_all add: decodes_def)
  from assms consider
      (gray) "color_type png_ptr = PNG_COLOR_TYPE_GRAY" "len = 2"
    | (rgb) "color_type png_ptr = PNG_COLOR_TYPE_RGB" "len = 6"
    | (palette) "color_type png_ptr = PNG_COLOR_TYPE_PALETTE" "mode png_ptr AND PNG_HAVE_PLTE \<noteq> 0"
        "\<not> (len > ucast (num_palette png_ptr) \<or> len > PNG_MAX_PALETTE_LENGTH \<or> len = 0)"
    by (auto simp: decodes_def)
  then show ?thesis
  proof cases
    case gray
    with pass avail show ?thesis
      by (cases info_ptr)
        (simp_all add: Let_def handler_proj body_gray set_proj set_fields png_crc_read_def
          tRNS_bit_set tRNS_bit_nonzero PNG_COLOR_TYPE_GRAY_def PNG_COLOR_TYPE_RGB_def
          PNG_COLOR_TYPE_PALETTE_def)
  next
    case rgb
    with pass avail show ?thesis
      by (cases info_ptr)
        (simp_all add: Let_def handler_proj body_rgb set_proj set_fields png_crc_read_def
          tRNS_bit_set tRNS_bit_nonzero PNG_COLOR_TYPE_GRAY_def PNG_COLOR_TYPE_RGB_def
          PNG_COLOR_TYPE_PALETTE_def)
  next
    case palette
    from palette(3) have bounds: "1 \<le> unat len" "unat len \<le> min (unat (num_palette png_ptr)) 256"
      by (simp_all only: palette_length_test)
    from bounds have nz: "(ucast len :: png_uint_16) \<noteq> 0"
      by (rule palette_length_nonzero)
    from bounds have n: "unat (ucast len :: png_uint_16) = unat len"
      by (simp add: unat_ucast_length)
    from avail have len: "length (take (unat len) (unread io)) = unat len"
      by simp
    from pass avail palette nz n len show ?thesis
      by (cases info_ptr)
        (simp_all add: Let_def handler_proj body_palette set_proj set_fields set_mem
          png_crc_read_def tRNS_bit_set tRNS_bit_nonzero new_buffer_def write_buffer_def
          release_def
          PNG_COLOR_TYPE_GRAY_def PNG_COLOR_TYPE_RGB_def PNG_COLOR_TYPE_PALETTE_def)
  qed
qed

theorem checksum_gated_commit_witness:
  "decodes (session (PNG_HAVE_IHDR OR PNG_HAVE_PLTE) PNG_COLOR_TYPE_PALETTE) (Some info0) 3
      (stream [10, 20, 30] False)
   \<and> r_out (png_handle_tRNS (session (PNG_HAVE_IHDR OR PNG_HAVE_PLTE) PNG_COLOR_TYPE_PALETTE)
       (Some info0) 3 (stream [10, 20, 30] False) mem0 []) = Stored
   \<and> png_struct.num_trans (r_png (png_handle_tRNS
       (session (PNG_HAVE_IHDR OR PNG_HAVE_PLTE) PNG_COLOR_TYPE_PALETTE)
       (Some info0) 3 (stream [10, 20, 30] False) mem0 [])) \<noteq> 0
   \<and> decodes (session PNG_HAVE_IHDR PNG_COLOR_TYPE_GRAY) (Some info0) 2 (stream [0, 42] True)
   \<and> r_out (png_handle_tRNS (session PNG_HAVE_IHDR PNG_COLOR_TYPE_GRAY) (Some info0) 2
       (stream [0, 42] True) mem0 []) = Crc_error
   \<and> r_info (png_handle_tRNS (session PNG_HAVE_IHDR PNG_COLOR_TYPE_GRAY) (Some info0) 2
       (stream [0, 42] True) mem0 []) = Some info0"
proof -
  have pal: "decodes (session (PNG_HAVE_IHDR OR PNG_HAVE_PLTE) PNG_COLOR_TYPE_PALETTE)
      (Some info0) 3 (stream [10, 20, 30] False)"
    by (simp add: decodes_def passes_def run)
  have gray: "decodes (session PNG_HAVE_IHDR PNG_COLOR_TYPE_GRAY) (Some info0) 2
      (stream [0, 42] True)"
    by (simp add: decodes_def passes_def run)
  have ok: "\<not> crc_mismatch (stream [10, 20, 30] False)" and bad: "crc_mismatch (stream [0, 42] True)"
    by (simp_all add: stream_def)
  note stored = checksum_gated_commit [OF pal, where m = mem0 and u = "[]", unfolded Let_def,
      THEN conjunct2, THEN mp, OF ok]
  note rejected = checksum_gated_commit [OF gray, where m = mem0 and u = "[]", unfolded Let_def,
      THEN conjunct1, THEN mp, OF bad]
  from pal gray stored [THEN conjunct1] stored [THEN conjunct2, THEN conjunct1]
    rejected [THEN conjunct1] rejected [THEN conjunct2]
  show ?thesis
    by (intro conjI)
qed

subsection \<open>C3: the order of the three preconditions\<close>

text \<open>
  C3. The handler checks its three preconditions in a fixed order, each cutting the
  rest short. First, with the header chunk not seen, the exit is the chunk error
  \<open>''missing IHDR''\<close> (MissingHeader), whatever the other two tests would say; it is
  the only call of \<open>png_chunk_error\<close>, hence the only fatal exit of the handler's own.
  Second, with image data begun, the exit is the benign error \<open>''out of place''\<close>
  (OutOfPlaceAfterImageData), whatever the info record says. Third, with the
  transparency of the info record already valid, it is the benign error
  \<open>''duplicate''\<close> (Duplicate). In all three the structures are as on entry. Only when
  none of the three fires does decoding proceed: an exit through the checksum test of
  line 90 (\<open>Stored\<close> or \<open>Crc_error\<close>) implies that none fired. A benign exit drains the
  declared length first, so on a stream that ends before that it is the read error.
\<close>

theorem precondition_order:
  "let r = png_handle_tRNS png_ptr info_ptr len io m u;
       no_header = (mode png_ptr AND PNG_HAVE_IHDR = 0);
       image_data = (mode png_ptr AND PNG_HAVE_IDAT \<noteq> 0);
       duplicate = (case info_ptr of None \<Rightarrow> False | Some i \<Rightarrow> valid i AND PNG_INFO_tRNS \<noteq> 0);
       drained = (unat len \<le> length (unread io))
   in (no_header \<longrightarrow> r_out r = Chunk_error ''missing IHDR'')
    \<and> (\<not> no_header \<and> image_data \<longrightarrow>
          r_out r = (if drained then Benign_error ''out of place'' else Read_error))
    \<and> (\<not> no_header \<and> \<not> image_data \<and> duplicate \<longrightarrow>
          r_out r = (if drained then Benign_error ''duplicate'' else Read_error))
    \<and> (no_header \<or> image_data \<or> duplicate \<longrightarrow> r_png r = png_ptr \<and> r_info r = info_ptr)
    \<and> (\<forall>msg. r_out r = Chunk_error msg \<longrightarrow> msg = ''missing IHDR'' \<and> no_header)
    \<and> (r_out r = Benign_error ''duplicate'' \<longrightarrow> \<not> no_header \<and> \<not> image_data \<and> duplicate)
    \<and> (r_out r = Stored \<or> r_out r = Crc_error \<longrightarrow>
          \<not> no_header \<and> \<not> image_data \<and> \<not> duplicate)"
proof -
  let ?b = "png_handle_tRNS_body png_ptr info_ptr len io (snd (new_buffer u m)) (brk m)"
  consider (header) "mode png_ptr AND PNG_HAVE_IHDR = 0"
    | (idat) "mode png_ptr AND PNG_HAVE_IHDR \<noteq> 0" "mode png_ptr AND PNG_HAVE_IDAT \<noteq> 0"
    | (dup) i where "mode png_ptr AND PNG_HAVE_IHDR \<noteq> 0" "mode png_ptr AND PNG_HAVE_IDAT = 0"
        "info_ptr = Some i" "valid i AND PNG_INFO_tRNS \<noteq> 0"
    | (pass) "passes png_ptr info_ptr"
    by (cases info_ptr) (auto simp: passes_def)
  then show ?thesis
  proof cases
    case header
    then have "?b = png_chunk_error ''missing IHDR'' png_ptr info_ptr io (snd (new_buffer u m))"
      by (rule body_no_header)
    with header show ?thesis
      by (simp add: Let_def proj)
  next
    case idat
    then have "?b = finish_benign_error ''out of place'' png_ptr info_ptr len io (snd (new_buffer u m))"
      by (rule body_image_data)
    with idat show ?thesis
      by (simp add: Let_def proj)
  next
    case dup
    then have "?b = finish_benign_error ''duplicate'' png_ptr info_ptr len io (snd (new_buffer u m))"
      by (rule body_duplicate)
    with dup show ?thesis
      by (simp add: Let_def proj)
  next
    case pass
    from pass have "\<And>msg. r_out ?b \<noteq> Chunk_error msg" "r_out ?b \<noteq> Benign_error ''duplicate''"
      using passes_out by blast+
    with pass show ?thesis
      by (simp add: Let_def handler_proj passes_def)
  qed
qed

theorem precondition_order_witness:
  "r_out (png_handle_tRNS (session PNG_HAVE_IDAT PNG_COLOR_TYPE_GRAY)
      (Some (info0\<lparr>valid := PNG_INFO_tRNS\<rparr>)) 2 (stream [0, 42] False) mem0 [])
      = Chunk_error ''missing IHDR''
   \<and> r_out (png_handle_tRNS (session (PNG_HAVE_IHDR OR PNG_HAVE_IDAT) PNG_COLOR_TYPE_GRAY)
       (Some (info0\<lparr>valid := PNG_INFO_tRNS\<rparr>)) 2 (stream [0, 42] False) mem0 [])
       = Benign_error ''out of place''
   \<and> r_out (png_handle_tRNS (session PNG_HAVE_IHDR PNG_COLOR_TYPE_GRAY)
       (Some (info0\<lparr>valid := PNG_INFO_tRNS\<rparr>)) 2 (stream [0, 42] False) mem0 [])
       = Benign_error ''duplicate''"
proof -
  note a = precondition_order [of "session PNG_HAVE_IDAT PNG_COLOR_TYPE_GRAY"
      "Some (info0\<lparr>valid := PNG_INFO_tRNS\<rparr>)" 2 "stream [0, 42] False" mem0 "[]",
      unfolded Let_def, THEN conjunct1]
  note b = precondition_order [of "session (PNG_HAVE_IHDR OR PNG_HAVE_IDAT) PNG_COLOR_TYPE_GRAY"
      "Some (info0\<lparr>valid := PNG_INFO_tRNS\<rparr>)" 2 "stream [0, 42] False" mem0 "[]",
      unfolded Let_def, THEN conjunct2, THEN conjunct1]
  note c = precondition_order [of "session PNG_HAVE_IHDR PNG_COLOR_TYPE_GRAY"
      "Some (info0\<lparr>valid := PNG_INFO_tRNS\<rparr>)" 2 "stream [0, 42] False" mem0 "[]",
      unfolded Let_def, THEN conjunct2, THEN conjunct2, THEN conjunct1]
  have "r_out (png_handle_tRNS (session PNG_HAVE_IDAT PNG_COLOR_TYPE_GRAY)
      (Some (info0\<lparr>valid := PNG_INFO_tRNS\<rparr>)) 2 (stream [0, 42] False) mem0 [])
      = Chunk_error ''missing IHDR''"
    by (rule a [THEN mp]) (simp add: session_def PNG_HAVE_IHDR_def PNG_HAVE_IDAT_def)
  moreover have "r_out (png_handle_tRNS (session (PNG_HAVE_IHDR OR PNG_HAVE_IDAT) PNG_COLOR_TYPE_GRAY)
       (Some (info0\<lparr>valid := PNG_INFO_tRNS\<rparr>)) 2 (stream [0, 42] False) mem0 [])
       = (if unat (2 :: png_uint_32) \<le> length (unread (stream [0, 42] False))
          then Benign_error ''out of place'' else Read_error)"
    by (rule b [THEN mp]) (simp add: session_def PNG_HAVE_IHDR_def PNG_HAVE_IDAT_def)
  moreover have "r_out (png_handle_tRNS (session PNG_HAVE_IHDR PNG_COLOR_TYPE_GRAY)
       (Some (info0\<lparr>valid := PNG_INFO_tRNS\<rparr>)) 2 (stream [0, 42] False) mem0 [])
       = (if unat (2 :: png_uint_32) \<le> length (unread (stream [0, 42] False))
          then Benign_error ''duplicate'' else Read_error)"
    by (rule c [THEN mp]) (simp add: session_def info0_def PNG_HAVE_IHDR_def
        PNG_HAVE_IDAT_def PNG_INFO_tRNS_def)
  ultimately show ?thesis
    by (simp add: stream_def)
qed

subsection \<open>C4: draining the chunk on the error exits\<close>

text \<open>
  C4, as amended. On every benign rejection and on a checksum mismatch the handler has
  consumed exactly the chunk's declared length when it returns: the stream held that
  many bytes and stands right behind them. On the missing-header exit nothing is
  consumed: \<open>png_chunk_error\<close> is called at once (line 10, no \<open>png_crc_finish\<close> before
  it) and does not return, the session being over.
\<close>

theorem benign_exits_drain:
  "let r = png_handle_tRNS png_ptr info_ptr len io m u
   in (\<forall>msg. r_out r = Benign_error msg \<longrightarrow>
         unat len \<le> length (unread io) \<and> unread (r_io r) = drop (unat len) (unread io))
    \<and> (r_out r = Crc_error \<longrightarrow>
         unat len \<le> length (unread io) \<and> unread (r_io r) = drop (unat len) (unread io))
    \<and> (\<forall>msg. r_out r = Chunk_error msg \<longrightarrow> r_io r = io)"
proof (cases rule: body_cases [where p = png_ptr and i = info_ptr])
  case header
  then show ?thesis
    by (simp add: Let_def handler_proj body_no_header error_proj)
next
  case image_data
  then show ?thesis
    by (simp add: Let_def handler_proj body_image_data benign_proj)
next
  case (duplicate x)
  then show ?thesis
    by (simp add: Let_def handler_proj body_duplicate benign_proj)
next
  case gray
  then show ?thesis
    by (simp add: Let_def body_gray proj png_crc_read_def)
next
  case rgb
  then show ?thesis
    by (simp add: Let_def body_rgb proj png_crc_read_def)
next
  case palette
  then show ?thesis
    by (simp add: Let_def body_palette proj png_crc_read_def)
next
  case other
  then show ?thesis
    by (simp add: Let_def handler_proj body_other benign_proj)
qed

theorem benign_exits_drain_witness:
  "unread (r_io (png_handle_tRNS (session PNG_HAVE_IHDR PNG_COLOR_TYPE_GRAY) (Some info0) 3
      (stream [0, 42, 7, 99] False) mem0 [])) = [99]
   \<and> unread (r_io (png_handle_tRNS (session PNG_HAVE_IHDR PNG_COLOR_TYPE_GRAY) (Some info0) 2
       (stream [0, 42, 99] True) mem0 [])) = [99]
   \<and> r_io (png_handle_tRNS (session 0 PNG_COLOR_TYPE_GRAY) (Some info0) 2
       (stream [0, 42, 99] False) mem0 []) = stream [0, 42, 99] False"
proof -
  let ?p = "session PNG_HAVE_IHDR PNG_COLOR_TYPE_GRAY"
  let ?invalid = "png_handle_tRNS ?p (Some info0) 3 (stream [0, 42, 7, 99] False) mem0 []"
  let ?bad = "png_handle_tRNS ?p (Some info0) 2 (stream [0, 42, 99] True) mem0 []"
  let ?fatal = "png_handle_tRNS (session 0 PNG_COLOR_TYPE_GRAY) (Some info0) 2
      (stream [0, 42, 99] False) mem0 []"
  have out: "r_out ?invalid = Benign_error ''invalid''" "r_out ?bad = Crc_error"
    "r_out ?fatal = Chunk_error ''missing IHDR''"
    by (simp_all add: run)
  note invalid = benign_exits_drain [of ?p "Some info0" 3 "stream [0, 42, 7, 99] False" mem0 "[]",
      unfolded Let_def, THEN conjunct1, THEN spec, THEN mp, OF out(1), THEN conjunct2]
  note bad = benign_exits_drain [of ?p "Some info0" 2 "stream [0, 42, 99] True" mem0 "[]",
      unfolded Let_def, THEN conjunct2, THEN conjunct1, THEN mp, OF out(2), THEN conjunct2]
  note fatal = benign_exits_drain [of "session 0 PNG_COLOR_TYPE_GRAY" "Some info0" 2
      "stream [0, 42, 99] False" mem0 "[]",
      unfolded Let_def, THEN conjunct2, THEN conjunct2, THEN spec, THEN mp, OF out(3)]
  from invalid bad fatal show ?thesis
    by (simp add: stream_def)
qed

text \<open>
  C4 as stated fails on the missing-header exit: with the header chunk not seen, a chunk
  of declared length 2 is refused with nothing consumed; the two bytes are still unread.
\<close>

theorem missing_header_drains_counterexample:
  "r_out (png_handle_tRNS (session 0 PNG_COLOR_TYPE_GRAY) (Some info0) 2
      (stream [0, 42] False) mem0 []) = Chunk_error ''missing IHDR''
   \<and> unread (r_io (png_handle_tRNS (session 0 PNG_COLOR_TYPE_GRAY) (Some info0) 2
       (stream [0, 42] False) mem0 [])) = [0, 42]"
  by (simp add: run)

subsection \<open>C5: the palette branch\<close>

text \<open>
  C5. In a palette image (the three preconditions passed) the palette chunk must have
  been seen; otherwise the exit is the benign error \<open>''out of place''\<close>
  (OutOfPlaceBeforePalette). With the palette seen the declared length must satisfy
  \<open>1 \<le> len \<le> min (num_palette, 256)\<close>; otherwise the exit is the benign error
  \<open>''invalid''\<close> (InvalidLength). In particular the length 0 is always invalid, and
  with \<open>num_palette = 0\<close> every length is. A length in range makes the handler read
  exactly \<open>len\<close> bytes; with a valid checksum \<open>num_trans\<close> is \<open>len\<close> and the info record
  holds these \<open>len\<close> bytes as its alpha values. (A benign exit drains the declared length
  first, so on a stream that ends before that it is the read error.)
\<close>

theorem palette_decoding:
  assumes "passes png_ptr info_ptr" and "color_type png_ptr = PNG_COLOR_TYPE_PALETTE"
  shows "let r = png_handle_tRNS png_ptr info_ptr len io m u;
             have_palette = (mode png_ptr AND PNG_HAVE_PLTE \<noteq> 0);
             in_range = (1 \<le> unat len \<and> unat len \<le> min (unat (num_palette png_ptr)) 256);
             drained = (unat len \<le> length (unread io));
             payload = take (unat len) (unread io)
         in (\<not> have_palette \<longrightarrow>
               r_out r = (if drained then Benign_error ''out of place'' else Read_error))
          \<and> (have_palette \<and> \<not> in_range \<longrightarrow>
               r_out r = (if drained then Benign_error ''invalid'' else Read_error))
          \<and> (have_palette \<and> len = 0 \<longrightarrow> r_out r = Benign_error ''invalid'')
          \<and> (have_palette \<and> num_palette png_ptr = 0 \<longrightarrow>
               r_out r = (if drained then Benign_error ''invalid'' else Read_error))
          \<and> (have_palette \<and> in_range \<and> \<not> drained \<longrightarrow> r_out r = Read_error)
          \<and> (have_palette \<and> in_range \<and> drained \<longrightarrow>
               length payload = unat len \<and>
               unread (r_io r) = drop (unat len) (unread io) \<and>
               r_out r = (if crc_mismatch io then Crc_error else Stored) \<and>
               (\<not> crc_mismatch io \<longrightarrow>
                  unat (png_struct.num_trans (r_png r)) = unat len \<and>
                  (\<forall>i. info_ptr = Some i \<longrightarrow>
                     (\<exists>i' a. r_info r = Some i' \<and> valid i' AND PNG_INFO_tRNS \<noteq> 0 \<and>
                        unat (num_trans i') = unat len \<and> trans_alpha i' = Some a \<and>
                        cells (r_mem r) a = Some payload))))"
proof -
  let ?b = "png_handle_tRNS_body png_ptr info_ptr len io (snd (new_buffer u m)) (brk m)"
  note body = body_palette [OF assms, of len io "snd (new_buffer u m)" "brk m"]
  note range = palette_length_test [of "num_palette png_ptr" len]
  consider (no_palette) "mode png_ptr AND PNG_HAVE_PLTE = 0"
    | (invalid) "mode png_ptr AND PNG_HAVE_PLTE \<noteq> 0"
        "\<not> (1 \<le> unat len \<and> unat len \<le> min (unat (num_palette png_ptr)) 256)"
    | (short) "mode png_ptr AND PNG_HAVE_PLTE \<noteq> 0"
        "1 \<le> unat len" "unat len \<le> min (unat (num_palette png_ptr)) 256"
        "\<not> unat len \<le> length (unread io)"
    | (decoded) "mode png_ptr AND PNG_HAVE_PLTE \<noteq> 0"
        "1 \<le> unat len" "unat len \<le> min (unat (num_palette png_ptr)) 256"
        "unat len \<le> length (unread io)"
    by blast
  then show ?thesis
  proof cases
    case no_palette
    then have "?b = finish_benign_error ''out of place'' png_ptr info_ptr len io (snd (new_buffer u m))"
      using body by simp
    with no_palette show ?thesis
      by (simp add: Let_def handler_proj benign_proj)
  next
    case invalid
    then have "len > ucast (num_palette png_ptr) \<or> len > PNG_MAX_PALETTE_LENGTH \<or> len = 0"
      using range by blast
    with invalid(1) have "?b = finish_benign_error ''invalid'' png_ptr info_ptr len io (snd (new_buffer u m))"
      using body by simp
    with invalid show ?thesis
      by (auto simp add: Let_def handler_proj benign_proj)
  next
    case short
    then have "\<not> (len > ucast (num_palette png_ptr) \<or> len > PNG_MAX_PALETTE_LENGTH \<or> len = 0)"
      using range by simp
    with short(1,4) have "?b = read_error png_ptr info_ptr io (snd (new_buffer u m))"
      using body by (simp add: png_crc_read_def)
    moreover from short(2) have "len \<noteq> 0" "num_palette png_ptr \<noteq> 0"
      using short(3) by auto
    ultimately show ?thesis
      using short by (simp add: Let_def handler_proj error_proj)
  next
    case decoded
    then have test: "\<not> (len > ucast (num_palette png_ptr) \<or> len > PNG_MAX_PALETTE_LENGTH \<or> len = 0)"
      using range by simp
    from decoded have n: "unat (ucast len :: png_uint_16) = unat len"
      by (simp add: unat_ucast_length)
    from decoded(2,3) have nz: "len \<noteq> 0" "num_palette png_ptr \<noteq> 0"
      by auto
    from decoded(4) have len: "length (take (unat len) (unread io)) = unat len"
      by simp
    from decoded(1,4) test have "?b =
        finish_set_tRNS (png_ptr\<lparr>png_struct.num_trans := ucast len\<rparr>) info_ptr
          (io\<lparr>unread := drop (unat len) (unread io)\<rparr>)
          (write_buffer (brk m) (take (unat len) (unread io)) (snd (new_buffer u m))) (brk m)"
      using body by (simp add: png_crc_read_def)
    with decoded n nz len show ?thesis
      by (cases info_ptr)
        (simp_all add: Let_def handler_proj set_proj set_fields set_mem tRNS_bit_set
          tRNS_bit_nonzero new_buffer_def write_buffer_def release_def)
  qed
qed

theorem palette_decoding_witness:
  "r_out (png_handle_tRNS (session (PNG_HAVE_IHDR OR PNG_HAVE_PLTE) PNG_COLOR_TYPE_PALETTE)
      (Some info0) 3 (stream [10, 20, 30] False) mem0 []) = Stored
   \<and> unat (png_struct.num_trans (r_png (png_handle_tRNS
       (session (PNG_HAVE_IHDR OR PNG_HAVE_PLTE) PNG_COLOR_TYPE_PALETTE)
       (Some info0) 3 (stream [10, 20, 30] False) mem0 []))) = 3
   \<and> r_out (png_handle_tRNS (session (PNG_HAVE_IHDR OR PNG_HAVE_PLTE) PNG_COLOR_TYPE_PALETTE)
       (Some info0) 0 (stream [] False) mem0 []) = Benign_error ''invalid''
   \<and> r_out (png_handle_tRNS (session (PNG_HAVE_IHDR OR PNG_HAVE_PLTE) PNG_COLOR_TYPE_PALETTE)
       (Some info0) 5 (stream [10, 20, 30, 40, 50] False) mem0 []) = Benign_error ''invalid''
   \<and> r_out (png_handle_tRNS (session PNG_HAVE_IHDR PNG_COLOR_TYPE_PALETTE)
       (Some info0) 3 (stream [10, 20, 30] False) mem0 []) = Benign_error ''out of place''
   \<and> r_out (png_handle_tRNS
       ((session (PNG_HAVE_IHDR OR PNG_HAVE_PLTE) PNG_COLOR_TYPE_PALETTE)\<lparr>num_palette := 0\<rparr>)
       (Some info0) 1 (stream [10] False) mem0 []) = Benign_error ''invalid''"
proof -
  let ?p = "session (PNG_HAVE_IHDR OR PNG_HAVE_PLTE) PNG_COLOR_TYPE_PALETTE"
  let ?q = "session PNG_HAVE_IHDR PNG_COLOR_TYPE_PALETTE"
  let ?z = "?p\<lparr>num_palette := 0\<rparr>"
  have p: "passes ?p (Some info0)" "color_type ?p = PNG_COLOR_TYPE_PALETTE"
    and q: "passes ?q (Some info0)" "color_type ?q = PNG_COLOR_TYPE_PALETTE"
    and z: "passes ?z (Some info0)" "color_type ?z = PNG_COLOR_TYPE_PALETTE"
    by (simp_all add: passes_def session_def info0_def PNG_HAVE_IHDR_def PNG_HAVE_PLTE_def
        PNG_HAVE_IDAT_def PNG_INFO_tRNS_def)
  note stored = palette_decoding [OF p, where len = 3 and io = "stream [10, 20, 30] False"
      and m = mem0 and u = "[]", unfolded Let_def, THEN conjunct2, THEN conjunct2,
      THEN conjunct2, THEN conjunct2, THEN conjunct2, THEN mp]
  note zero = palette_decoding [OF p, where len = 0 and io = "stream [] False"
      and m = mem0 and u = "[]", unfolded Let_def, THEN conjunct2, THEN conjunct2,
      THEN conjunct1, THEN mp]
  note long = palette_decoding [OF p, where len = 5
      and io = "stream [10, 20, 30, 40, 50] False"
      and m = mem0 and u = "[]", unfolded Let_def, THEN conjunct2, THEN conjunct1, THEN mp]
  note early = palette_decoding [OF q, where len = 3 and io = "stream [10, 20, 30] False"
      and m = mem0 and u = "[]", unfolded Let_def, THEN conjunct1, THEN mp]
  note empty = palette_decoding [OF z, where len = 1 and io = "stream [10] False"
      and m = mem0 and u = "[]", unfolded Let_def, THEN conjunct2, THEN conjunct2,
      THEN conjunct2, THEN conjunct1, THEN mp]
  have "mode ?p AND PNG_HAVE_PLTE \<noteq> 0 \<and>
      (1 \<le> unat (3 :: png_uint_32) \<and> unat (3 :: png_uint_32) \<le> min (unat (num_palette ?p)) 256) \<and>
      unat (3 :: png_uint_32) \<le> length (unread (stream [10, 20, 30] False))"
    by (simp add: session_def stream_def PNG_HAVE_IHDR_def PNG_HAVE_PLTE_def)
  note s = stored [OF this]
  have a: "r_out (png_handle_tRNS ?p (Some info0) 3 (stream [10, 20, 30] False) mem0 []) = Stored"
    using s [THEN conjunct2, THEN conjunct2, THEN conjunct1] by (simp add: stream_def)
  have b: "unat (png_struct.num_trans (r_png (png_handle_tRNS ?p (Some info0) 3
      (stream [10, 20, 30] False) mem0 []))) = 3"
    using s [THEN conjunct2, THEN conjunct2, THEN conjunct2, THEN mp, THEN conjunct1]
    by (simp add: stream_def)
  have c: "r_out (png_handle_tRNS ?p (Some info0) 0 (stream [] False) mem0 []) =
      Benign_error ''invalid''"
    by (rule zero) (simp add: session_def PNG_HAVE_IHDR_def PNG_HAVE_PLTE_def)
  have d: "r_out (png_handle_tRNS ?p (Some info0) 5 (stream [10, 20, 30, 40, 50] False) mem0 []) =
      (if unat (5 :: png_uint_32) \<le> length (unread (stream [10, 20, 30, 40, 50] False))
       then Benign_error ''invalid'' else Read_error)"
    by (rule long) (simp add: session_def PNG_HAVE_IHDR_def PNG_HAVE_PLTE_def)
  have e: "r_out (png_handle_tRNS ?q (Some info0) 3 (stream [10, 20, 30] False) mem0 []) =
      (if unat (3 :: png_uint_32) \<le> length (unread (stream [10, 20, 30] False))
       then Benign_error ''out of place'' else Read_error)"
    by (rule early) (simp add: session_def PNG_HAVE_IHDR_def PNG_HAVE_PLTE_def)
  have f: "r_out (png_handle_tRNS ?z (Some info0) 1 (stream [10] False) mem0 []) =
      (if unat (1 :: png_uint_32) \<le> length (unread (stream [10] False))
       then Benign_error ''invalid'' else Read_error)"
    by (rule empty) (simp add: session_def PNG_HAVE_IHDR_def PNG_HAVE_PLTE_def)
  from a b c d e f show ?thesis
    by (simp add: stream_def)
qed

subsection \<open>C6: the gray branch\<close>

text \<open>
  C6. In a gray image (the three preconditions passed) the chunk must have the declared
  length 2; any other length is the benign error \<open>''invalid''\<close> (InvalidLength), with
  the structures as on entry. A payload \<open>[hi, lo]\<close> of length 2 is read as one
  big-endian unsigned 16-bit number: \<open>trans_color.gray\<close> is \<open>hi * 256 + lo\<close>, exactly two
  bytes are consumed, and with a valid checksum \<open>num_trans\<close> is 1 and the info record
  holds the same gray sample with its transparency valid.
\<close>

theorem gray_decoding:
  assumes "passes png_ptr info_ptr" and "color_type png_ptr = PNG_COLOR_TYPE_GRAY"
  shows "let r = png_handle_tRNS png_ptr info_ptr len io m u;
             drained = (unat len \<le> length (unread io))
         in (len \<noteq> 2 \<longrightarrow>
               r_out r = (if drained then Benign_error ''invalid'' else Read_error) \<and>
               r_png r = png_ptr \<and> r_info r = info_ptr)
          \<and> (\<forall>hi lo rest. len = 2 \<and> unread io = hi # lo # rest \<longrightarrow>
                unread (r_io r) = rest \<and>
                unat (gray (png_struct.trans_color (r_png r))) = unat hi * 256 + unat lo \<and>
                r_out r = (if crc_mismatch io then Crc_error else Stored) \<and>
                (\<not> crc_mismatch io \<longrightarrow>
                   png_struct.num_trans (r_png r) = 1 \<and>
                   (\<forall>i. info_ptr = Some i \<longrightarrow>
                      (\<exists>i'. r_info r = Some i' \<and> valid i' AND PNG_INFO_tRNS \<noteq> 0 \<and>
                         unat (gray (trans_color i')) = unat hi * 256 + unat lo))))"
  using assms
  by (cases info_ptr)
    (auto simp add: Let_def handler_proj body_gray benign_proj error_proj set_proj set_fields
      png_crc_read_def tRNS_bit_set tRNS_bit_nonzero unat_get_uint_16)

theorem gray_decoding_witness:
  "r_out (png_handle_tRNS (session PNG_HAVE_IHDR PNG_COLOR_TYPE_GRAY) (Some info0) 3
      (stream [0, 42, 7] False) mem0 []) = Benign_error ''invalid''
   \<and> unat (gray (png_struct.trans_color (r_png (png_handle_tRNS
       (session PNG_HAVE_IHDR PNG_COLOR_TYPE_GRAY) (Some info0) 2
       (stream [0, 42] False) mem0 [])))) = 42
   \<and> r_out (png_handle_tRNS (session PNG_HAVE_IHDR PNG_COLOR_TYPE_GRAY) (Some info0) 2
       (stream [0, 42] False) mem0 []) = Stored"
proof -
  let ?p = "session PNG_HAVE_IHDR PNG_COLOR_TYPE_GRAY"
  have pass: "passes ?p (Some info0)" and gray: "color_type ?p = PNG_COLOR_TYPE_GRAY"
    by (simp_all add: passes_def run)
  note invalid = gray_decoding [OF pass gray, where len = 3 and io = "stream [0, 42, 7] False"
      and m = mem0 and u = "[]", unfolded Let_def, THEN conjunct1, THEN mp, THEN conjunct1]
  note decoded = gray_decoding [OF pass gray, where len = 2 and io = "stream [0, 42] False"
      and m = mem0 and u = "[]", unfolded Let_def, THEN conjunct2, THEN spec [where x = 0],
      THEN spec [where x = 42], THEN spec [where x = "[]"], THEN mp]
  have "r_out (png_handle_tRNS ?p (Some info0) 3 (stream [0, 42, 7] False) mem0 []) =
      (if unat (3 :: png_uint_32) \<le> length (unread (stream [0, 42, 7] False))
       then Benign_error ''invalid'' else Read_error)"
    by (rule invalid) simp
  moreover have d: "(2 :: png_uint_32) = 2 \<and> unread (stream [0, 42] False) = [0, 42]"
    by (simp add: stream_def)
  note decoded [OF d, THEN conjunct2, THEN conjunct1]
    decoded [OF d, THEN conjunct2, THEN conjunct2, THEN conjunct1]
  ultimately show ?thesis
    by (simp add: stream_def)
qed

subsection \<open>C7: the RGB branch\<close>

text \<open>
  C7. In an RGB image (the three preconditions passed) the chunk must have the declared
  length 6; any other length is the benign error \<open>''invalid''\<close> (InvalidLength), with
  the structures as on entry. A payload of six bytes is read as three consecutive
  big-endian unsigned 16-bit numbers, which become \<open>trans_color.red\<close>, \<open>.green\<close> and
  \<open>.blue\<close> in that order; exactly six bytes are consumed, and with a valid checksum
  \<open>num_trans\<close> is 1 and the info record holds the same three samples with its
  transparency valid.
\<close>

theorem rgb_decoding:
  assumes "passes png_ptr info_ptr" and "color_type png_ptr = PNG_COLOR_TYPE_RGB"
  shows "let r = png_handle_tRNS png_ptr info_ptr len io m u;
             drained = (unat len \<le> length (unread io))
         in (len \<noteq> 6 \<longrightarrow>
               r_out r = (if drained then Benign_error ''invalid'' else Read_error) \<and>
               r_png r = png_ptr \<and> r_info r = info_ptr)
          \<and> (\<forall>r1 r0 g1 g0 b1 b0 rest.
                len = 6 \<and> unread io = r1 # r0 # g1 # g0 # b1 # b0 # rest \<longrightarrow>
                unread (r_io r) = rest \<and>
                unat (red (png_struct.trans_color (r_png r))) = unat r1 * 256 + unat r0 \<and>
                unat (green (png_struct.trans_color (r_png r))) = unat g1 * 256 + unat g0 \<and>
                unat (blue (png_struct.trans_color (r_png r))) = unat b1 * 256 + unat b0 \<and>
                r_out r = (if crc_mismatch io then Crc_error else Stored) \<and>
                (\<not> crc_mismatch io \<longrightarrow>
                   png_struct.num_trans (r_png r) = 1 \<and>
                   (\<forall>i. info_ptr = Some i \<longrightarrow>
                      (\<exists>i'. r_info r = Some i' \<and> valid i' AND PNG_INFO_tRNS \<noteq> 0 \<and>
                         unat (red (trans_color i')) = unat r1 * 256 + unat r0 \<and>
                         unat (green (trans_color i')) = unat g1 * 256 + unat g0 \<and>
                         unat (blue (trans_color i')) = unat b1 * 256 + unat b0))))"
  using assms
  by (cases info_ptr)
    (auto simp add: Let_def handler_proj body_rgb benign_proj error_proj set_proj set_fields
      png_crc_read_def tRNS_bit_set tRNS_bit_nonzero unat_get_uint_16)

theorem rgb_decoding_witness:
  "r_out (png_handle_tRNS (session PNG_HAVE_IHDR PNG_COLOR_TYPE_RGB) (Some info0) 2
      (stream [0, 42] False) mem0 []) = Benign_error ''invalid''
   \<and> unat (red (png_struct.trans_color (r_png (png_handle_tRNS
       (session PNG_HAVE_IHDR PNG_COLOR_TYPE_RGB) (Some info0) 6
       (stream [0, 1, 0, 2, 0, 3] False) mem0 [])))) = 1
   \<and> unat (green (png_struct.trans_color (r_png (png_handle_tRNS
       (session PNG_HAVE_IHDR PNG_COLOR_TYPE_RGB) (Some info0) 6
       (stream [0, 1, 0, 2, 0, 3] False) mem0 [])))) = 2
   \<and> unat (blue (png_struct.trans_color (r_png (png_handle_tRNS
       (session PNG_HAVE_IHDR PNG_COLOR_TYPE_RGB) (Some info0) 6
       (stream [0, 1, 0, 2, 0, 3] False) mem0 [])))) = 3"
proof -
  let ?p = "session PNG_HAVE_IHDR PNG_COLOR_TYPE_RGB"
  have pass: "passes ?p (Some info0)" and rgb: "color_type ?p = PNG_COLOR_TYPE_RGB"
    by (simp_all add: passes_def run)
  note invalid = rgb_decoding [OF pass rgb, where len = 2 and io = "stream [0, 42] False"
      and m = mem0 and u = "[]", unfolded Let_def, THEN conjunct1, THEN mp, THEN conjunct1]
  note decoded = rgb_decoding [OF pass rgb, where len = 6
      and io = "stream [0, 1, 0, 2, 0, 3] False" and m = mem0 and u = "[]", unfolded Let_def,
      THEN conjunct2, THEN spec [where x = 0], THEN spec [where x = 1],
      THEN spec [where x = 0], THEN spec [where x = 2], THEN spec [where x = 0],
      THEN spec [where x = 3], THEN spec [where x = "[]"], THEN mp]
  have "r_out (png_handle_tRNS ?p (Some info0) 2 (stream [0, 42] False) mem0 []) =
      (if unat (2 :: png_uint_32) \<le> length (unread (stream [0, 42] False))
       then Benign_error ''invalid'' else Read_error)"
    by (rule invalid) simp
  moreover have d: "(6 :: png_uint_32) = 6 \<and>
      unread (stream [0, 1, 0, 2, 0, 3] False) = [0, 1, 0, 2, 0, 3]"
    by (simp add: stream_def)
  note decoded [OF d, THEN conjunct2, THEN conjunct1]
    decoded [OF d, THEN conjunct2, THEN conjunct2, THEN conjunct1]
    decoded [OF d, THEN conjunct2, THEN conjunct2, THEN conjunct2, THEN conjunct1]
  ultimately show ?thesis
    by (simp add: stream_def)
qed

subsection \<open>C8: the colour types with an alpha channel\<close>

text \<open>
  C8. In a gray-alpha or RGB-alpha image (the three preconditions passed) the exit is
  the benign error \<open>''invalid with alpha channel''\<close> (InvalidForAlphaMode) for every
  declared length and every payload of that length; the chunk's bytes are drained to
  the declared length all the same, and the structures are as on entry. (On a stream
  that ends before the declared length the draining itself is the read error.)
\<close>

theorem alpha_modes_rejected:
  assumes "passes png_ptr info_ptr"
    and "color_type png_ptr = PNG_COLOR_TYPE_GRAY_ALPHA \<or>
         color_type png_ptr = PNG_COLOR_TYPE_RGB_ALPHA"
  shows "let r = png_handle_tRNS png_ptr info_ptr len io m u;
             drained = (unat len \<le> length (unread io))
         in r_out r = (if drained then Benign_error ''invalid with alpha channel''
                       else Read_error)
          \<and> (drained \<longrightarrow> unread (r_io r) = drop (unat len) (unread io))
          \<and> r_png r = png_ptr \<and> r_info r = info_ptr"
proof -
  from assms(2) have "color_type png_ptr \<noteq> PNG_COLOR_TYPE_GRAY"
    "color_type png_ptr \<noteq> PNG_COLOR_TYPE_RGB" "color_type png_ptr \<noteq> PNG_COLOR_TYPE_PALETTE"
    by (auto simp: PNG_COLOR_TYPE_GRAY_def PNG_COLOR_TYPE_RGB_def PNG_COLOR_TYPE_PALETTE_def
        PNG_COLOR_TYPE_GRAY_ALPHA_def PNG_COLOR_TYPE_RGB_ALPHA_def)
  with assms(1) have "png_handle_tRNS_body png_ptr info_ptr len io (snd (new_buffer u m)) (brk m) =
      finish_benign_error ''invalid with alpha channel'' png_ptr info_ptr len io
        (snd (new_buffer u m))"
    by (rule body_other)
  then show ?thesis
    by (simp add: Let_def handler_proj benign_proj)
qed

theorem alpha_modes_rejected_witness:
  "r_out (png_handle_tRNS (session PNG_HAVE_IHDR PNG_COLOR_TYPE_GRAY_ALPHA) (Some info0) 2
      (stream [0, 42, 99] False) mem0 []) = Benign_error ''invalid with alpha channel''
   \<and> unread (r_io (png_handle_tRNS (session PNG_HAVE_IHDR PNG_COLOR_TYPE_GRAY_ALPHA)
       (Some info0) 2 (stream [0, 42, 99] False) mem0 [])) = [99]
   \<and> r_out (png_handle_tRNS (session PNG_HAVE_IHDR PNG_COLOR_TYPE_RGB_ALPHA) None 0
       (stream [] False) mem0 []) = Benign_error ''invalid with alpha channel''"
proof -
  let ?ga = "session PNG_HAVE_IHDR PNG_COLOR_TYPE_GRAY_ALPHA"
  let ?rgba = "session PNG_HAVE_IHDR PNG_COLOR_TYPE_RGB_ALPHA"
  have ga: "passes ?ga (Some info0)"
      "color_type ?ga = PNG_COLOR_TYPE_GRAY_ALPHA \<or> color_type ?ga = PNG_COLOR_TYPE_RGB_ALPHA"
    and rgba: "passes ?rgba None"
      "color_type ?rgba = PNG_COLOR_TYPE_GRAY_ALPHA \<or> color_type ?rgba = PNG_COLOR_TYPE_RGB_ALPHA"
    by (simp_all add: passes_def session_def info0_def PNG_HAVE_IHDR_def PNG_HAVE_IDAT_def
        PNG_INFO_tRNS_def)
  note a = alpha_modes_rejected [OF ga, where len = 2 and io = "stream [0, 42, 99] False"
      and m = mem0 and u = "[]", unfolded Let_def]
  note b = alpha_modes_rejected [OF rgba, where len = 0 and io = "stream [] False"
      and m = mem0 and u = "[]", unfolded Let_def]
  have avail: "unat (2 :: png_uint_32) \<le> length (unread (stream [0, 42, 99] False))"
    by (simp add: stream_def)
  from a [THEN conjunct1] a [THEN conjunct2, THEN conjunct1, THEN mp, OF avail] b [THEN conjunct1]
  show ?thesis
    by (simp add: stream_def)
qed

subsection \<open>C9: who holds the palette alphas after a commit\<close>



subsection \<open>C10: a NULL info pointer switches the duplicate test off\<close>

text \<open>
  C10. With a NULL \<open>info_ptr\<close> the duplicate test of line 19 is false, so the exit is
  never the benign error \<open>''duplicate''\<close>: the call behaves as one with an info record
  whose transparency is not marked valid (same exit, same bytes consumed, same
  \<open>num_trans\<close> and \<open>trans_color\<close>), whatever earlier chunks left in \<open>png_struct\<close>. So
  once the header is seen and no image data has begun, a well-formed gray chunk is
  decoded and written into \<open>png_struct\<close> (\<open>num_trans\<close>, \<open>trans_color.gray\<close>) even when a
  transparency chunk was processed before; nothing is stored into an info record, there
  being none.
\<close>

theorem null_info_never_duplicate:
  "let r = png_handle_tRNS png_ptr None len io m u
   in r_out r \<noteq> Benign_error ''duplicate'' \<and> r_info r = None
    \<and> (\<forall>i. valid i AND PNG_INFO_tRNS = 0 \<longrightarrow>
          (let r' = png_handle_tRNS png_ptr (Some i) len io m u
           in r_out r = r_out r' \<and> r_io r = r_io r' \<and>
              png_struct.num_trans (r_png r) = png_struct.num_trans (r_png r') \<and>
              png_struct.trans_color (r_png r) = png_struct.trans_color (r_png r')))
    \<and> (\<forall>hi lo rest.
          mode png_ptr AND PNG_HAVE_IHDR \<noteq> 0 \<and> mode png_ptr AND PNG_HAVE_IDAT = 0 \<and>
          color_type png_ptr = PNG_COLOR_TYPE_GRAY \<and> len = 2 \<and> unread io = hi # lo # rest \<longrightarrow>
          r_out r = (if crc_mismatch io then Crc_error else Stored) \<and>
          png_struct.num_trans (r_png r) = (if crc_mismatch io then 0 else 1) \<and>
          unat (gray (png_struct.trans_color (r_png r))) = unat hi * 256 + unat lo)"
proof -
  let ?b = "png_handle_tRNS_body png_ptr None len io (snd (new_buffer u m)) (brk m)"
  have a: "r_out ?b \<noteq> Benign_error ''duplicate''"
  proof (cases rule: body_cases [where p = png_ptr and i = None])
    case header
    then show ?thesis
      by (simp add: body_no_header error_proj)
  next
    case image_data
    then show ?thesis
      by (simp add: body_image_data benign_proj)
  next
    case (duplicate x)
    then show ?thesis
      by simp
  qed (simp_all add: passes_out)
  have b: "r_info ?b = None"
  proof (cases rule: body_cases [where p = png_ptr and i = None])
    case header
    then show ?thesis
      by (simp add: body_no_header error_proj)
  next
    case image_data
    then show ?thesis
      by (simp add: body_image_data benign_proj)
  next
    case (duplicate x)
    then show ?thesis
      by simp
  next
    case gray
    then show ?thesis
      by (simp add: body_gray benign_proj error_proj set_proj png_crc_read_def)
  next
    case rgb
    then show ?thesis
      by (simp add: body_rgb benign_proj error_proj set_proj png_crc_read_def)
  next
    case palette
    then show ?thesis
      by (simp add: body_palette benign_proj error_proj set_proj png_crc_read_def)
  next
    case other
    then show ?thesis
      by (simp add: body_other benign_proj)
  qed
  have d: "\<forall>hi lo rest.
      mode png_ptr AND PNG_HAVE_IHDR \<noteq> 0 \<and> mode png_ptr AND PNG_HAVE_IDAT = 0 \<and>
      color_type png_ptr = PNG_COLOR_TYPE_GRAY \<and> len = 2 \<and> unread io = hi # lo # rest \<longrightarrow>
      r_out ?b = (if crc_mismatch io then Crc_error else Stored) \<and>
      png_struct.num_trans (r_png ?b) = (if crc_mismatch io then 0 else 1) \<and>
      unat (gray (png_struct.trans_color (r_png ?b))) = unat hi * 256 + unat lo"
    by (auto simp add: body_gray passes_null_info set_proj set_fields png_crc_read_def
        unat_get_uint_16)
  have c: "\<forall>i. valid i AND PNG_INFO_tRNS = 0 \<longrightarrow>
      r_out ?b = r_out (png_handle_tRNS_body png_ptr (Some i) len io (snd (new_buffer u m)) (brk m)) \<and>
      r_io ?b = r_io (png_handle_tRNS_body png_ptr (Some i) len io (snd (new_buffer u m)) (brk m)) \<and>
      png_struct.num_trans (r_png ?b) = png_struct.num_trans
        (r_png (png_handle_tRNS_body png_ptr (Some i) len io (snd (new_buffer u m)) (brk m))) \<and>
      png_struct.trans_color (r_png ?b) = png_struct.trans_color
        (r_png (png_handle_tRNS_body png_ptr (Some i) len io (snd (new_buffer u m)) (brk m)))"
    using null_info_like_unmarked by blast
  show ?thesis
    unfolding Let_def handler_proj by (intro conjI a b c d)
qed

theorem null_info_never_duplicate_witness:
  "r_out (png_handle_tRNS (session PNG_HAVE_IHDR PNG_COLOR_TYPE_GRAY) None 2
      (stream [0, 42, 1, 0] False) mem0 []) = Stored
   \<and> png_struct.num_trans (r_png (png_handle_tRNS (session PNG_HAVE_IHDR PNG_COLOR_TYPE_GRAY)
       None 2 (stream [0, 42, 1, 0] False) mem0 [])) = 1
   \<and> r_out (png_handle_tRNS
       (r_png (png_handle_tRNS (session PNG_HAVE_IHDR PNG_COLOR_TYPE_GRAY) None 2
          (stream [0, 42, 1, 0] False) mem0 []))
       None 2
       (r_io (png_handle_tRNS (session PNG_HAVE_IHDR PNG_COLOR_TYPE_GRAY) None 2
          (stream [0, 42, 1, 0] False) mem0 []))
       (r_mem (png_handle_tRNS (session PNG_HAVE_IHDR PNG_COLOR_TYPE_GRAY) None 2
          (stream [0, 42, 1, 0] False) mem0 []))
       []) = Stored
   \<and> unat (gray (png_struct.trans_color (r_png (png_handle_tRNS
       (r_png (png_handle_tRNS (session PNG_HAVE_IHDR PNG_COLOR_TYPE_GRAY) None 2
          (stream [0, 42, 1, 0] False) mem0 []))
       None 2
       (r_io (png_handle_tRNS (session PNG_HAVE_IHDR PNG_COLOR_TYPE_GRAY) None 2
          (stream [0, 42, 1, 0] False) mem0 []))
       (r_mem (png_handle_tRNS (session PNG_HAVE_IHDR PNG_COLOR_TYPE_GRAY) None 2
          (stream [0, 42, 1, 0] False) mem0 []))
       [])))) = 256"
proof -
  let ?p = "session PNG_HAVE_IHDR PNG_COLOR_TYPE_GRAY"
  let ?first = "png_handle_tRNS ?p None 2 (stream [0, 42, 1, 0] False) mem0 []"
  note first = null_info_never_duplicate [of ?p 2 "stream [0, 42, 1, 0] False" mem0 "[]",
      unfolded Let_def, THEN conjunct2, THEN conjunct2, THEN conjunct2,
      THEN spec [where x = 0], THEN spec [where x = 42], THEN spec [where x = "[1, 0]"], THEN mp]
  note second = null_info_never_duplicate [of "r_png ?first" 2 "r_io ?first" "r_mem ?first" "[]",
      unfolded Let_def, THEN conjunct2, THEN conjunct2, THEN conjunct2,
      THEN spec [where x = 1], THEN spec [where x = 0], THEN spec [where x = "[]"], THEN mp]
  have one: "mode ?p AND PNG_HAVE_IHDR \<noteq> 0 \<and> mode ?p AND PNG_HAVE_IDAT = 0 \<and>
      color_type ?p = PNG_COLOR_TYPE_GRAY \<and> (2 :: png_uint_32) = 2 \<and>
      unread (stream [0, 42, 1, 0] False) = [0, 42, 1, 0]"
    by (simp add: session_def stream_def PNG_HAVE_IHDR_def PNG_HAVE_IDAT_def)
  have two: "mode (r_png ?first) AND PNG_HAVE_IHDR \<noteq> 0 \<and>
      mode (r_png ?first) AND PNG_HAVE_IDAT = 0 \<and>
      color_type (r_png ?first) = PNG_COLOR_TYPE_GRAY \<and> (2 :: png_uint_32) = 2 \<and>
      unread (r_io ?first) = [1, 0]"
    by (simp add: run)
  have ok: "\<not> crc_mismatch (stream [0, 42, 1, 0] False)" "\<not> crc_mismatch (r_io ?first)"
    by (simp_all add: run)
  from first [OF one] second [OF two] ok show ?thesis
    by simp
qed

end
